theory Spec2Isabelle
  imports Complex_Main
begin

section \<open>Python values used by \<open>chart_engine\<close>\<close>

text \<open>
  A Python float is a finite number, an infinity or NaN.  Finite floats are idealised as
  reals: comparisons are exact, and the rounding of the three arithmetic expressions of
  \<open>build_chart\<close> is left out of the model.
\<close>

datatype pyfloat = Fin real | PInf | NInf | NaN

text \<open>\<open>x < y\<close> and \<open>x <= y\<close> on floats: every comparison with NaN is false.\<close>

fun flt :: "pyfloat \<Rightarrow> pyfloat \<Rightarrow> bool" where
  "flt (Fin a) (Fin b) = (a < b)"
| "flt (Fin a) PInf = True"
| "flt NInf (Fin b) = True"
| "flt NInf PInf = True"
| "flt _ _ = False"

fun fle :: "pyfloat \<Rightarrow> pyfloat \<Rightarrow> bool" where
  "fle (Fin a) (Fin b) = (a \<le> b)"
| "fle (Fin a) PInf = True"
| "fle NInf (Fin b) = True"
| "fle NInf PInf = True"
| "fle NInf NInf = True"
| "fle PInf PInf = True"
| "fle _ _ = False"

text \<open>\<open>x + y\<close> on floats.\<close>

fun fadd :: "pyfloat \<Rightarrow> pyfloat \<Rightarrow> pyfloat" where
  "fadd (Fin a) (Fin b) = Fin (a + b)"
| "fadd NaN _ = NaN"
| "fadd _ NaN = NaN"
| "fadd PInf NInf = NaN"
| "fadd NInf PInf = NaN"
| "fadd PInf _ = PInf"
| "fadd _ PInf = PInf"
| "fadd NInf _ = NInf"
| "fadd _ NInf = NInf"

text \<open>\<open>-x\<close> on floats.\<close>

fun fneg :: "pyfloat \<Rightarrow> pyfloat" where
  "fneg (Fin a) = Fin (- a)"
| "fneg PInf = NInf"
| "fneg NInf = PInf"
| "fneg NaN = NaN"

text \<open>
  \<open>x % m\<close> for a finite positive float literal \<open>m\<close> (the source only uses \<open>% 360.0\<close>): the
  result has the sign of \<open>m\<close>; an infinite or NaN left operand gives NaN.
\<close>

fun pymod :: "pyfloat \<Rightarrow> real \<Rightarrow> pyfloat" where
  "pymod (Fin a) m = Fin (a - m * of_int \<lfloor>a / m\<rfloor>)"
| "pymod _ m = NaN"

text \<open>A \<open>datetime\<close> object; \<open>tzinfo\<close> is the UTC offset in microseconds of an aware one.\<close>

record datetime =
  year :: nat
  month :: nat
  day :: nat
  hour :: nat
  minute :: nat
  second :: nat
  microsecond :: nat
  tzinfo :: "int option"

text \<open>The values a payload entry can hold.\<close>

datatype pyval =
    VNone
  | VBool bool
  | VInt int
  | VFloat pyfloat
  | VStr string
  | VDatetime datetime

text \<open>
  The objects the ephemeris provider returns from \<open>calc_ut\<close>: numbers, tuples and lists.
\<close>

datatype pyobj = Num pyfloat | Tup "pyobj list" | Lst "pyobj list"

text \<open>
  Exceptions, each with its message.  The specification's \<open>ValidationError\<close> is the
  source's \<open>ValueError\<close>, its \<open>ComputationError\<close> the source's \<open>RuntimeError\<close>.
\<close>

datatype exn =
    ValueError string
  | RuntimeError string
  | IndexError string
  | TypeError string

fun is_ValueError :: "exn + 'a \<Rightarrow> bool" where
  "is_ValueError (Inl (ValueError m)) = True"
| "is_ValueError _ = False"

section \<open>The Python runtime and the ephemeris provider\<close>

text \<open>
  Library functions of the Python runtime that the source calls and that are taken as
  parameters: \<open>datetime.fromisoformat\<close> (\<open>None\<close> when it raises), \<open>float\<close> on a string
  (\<open>None\<close> when it raises), and \<open>str\<close> of a float and of a datetime.
\<close>

record pyruntime =
  fromisoformat :: "string \<Rightarrow> datetime option"
  float_of_str :: "string \<Rightarrow> pyfloat option"
  str_float :: "pyfloat \<Rightarrow> string"
  str_datetime :: "datetime \<Rightarrow> string"

text \<open>The body identifiers of the provider that the source names (\<open>swe.SUN\<close>, ...).\<close>

datatype body =
    SUN | MOON | MERCURY | VENUS | MARS
  | JUPITER | SATURN | URANUS | NEPTUNE | PLUTO
  | CHIRON | MEAN_NODE | MEAN_APOG

text \<open>
  The ephemeris provider (\<open>swisseph\<close>), a parameter of the model.  A call that raises
  returns \<open>Inl\<close> with the text of the exception.
\<close>

record provider =
  julday :: "nat \<Rightarrow> nat \<Rightarrow> nat \<Rightarrow> pyfloat \<Rightarrow> string + pyfloat"
  calc_ut :: "pyfloat \<Rightarrow> body \<Rightarrow> string + pyobj"
  get_planet_name :: "body \<Rightarrow> string"
  houses_ex :: "pyfloat \<Rightarrow> pyfloat \<Rightarrow> pyfloat \<Rightarrow> string \<Rightarrow> string + (pyfloat list \<times> pyfloat list)"

section \<open>Dictionaries\<close>

text \<open>
  The payload is a dictionary that is only read: a map.  \<open>placements\<close> is a dictionary whose
  insertion order matters: an association list, where assigning to an existing key keeps
  the key's position.
\<close>

type_synonym payload = "string \<rightharpoonup> pyval"

definition dict_get :: "payload \<Rightarrow> string \<Rightarrow> pyval \<Rightarrow> pyval" where
  "dict_get d k dflt = (case d k of None \<Rightarrow> dflt | Some v \<Rightarrow> v)"

fun dict_set :: "('k \<times> 'v) list \<Rightarrow> 'k \<Rightarrow> 'v \<Rightarrow> ('k \<times> 'v) list" where
  "dict_set [] k v = [(k, v)]"
| "dict_set ((k', v') # rest) k v =
     (if k' = k then (k, v) # rest else (k', v') # dict_set rest k v)"

definition keys :: "('k \<times> 'v) list \<Rightarrow> 'k list" where
  "keys d = map fst d"

section \<open>Formatting\<close>

definition digit_char :: "nat \<Rightarrow> char" where
  "digit_char n = ''0123456789'' ! n"

fun str_nat :: "nat \<Rightarrow> string" where
  "str_nat n = (if n < 10 then [digit_char n] else str_nat (n div 10) @ [digit_char (n mod 10)])"

declare str_nat.simps [simp del]

definition str_int :: "int \<Rightarrow> string" where
  "str_int i = (if i < 0 then CHR ''-'' # str_nat (nat (- i)) else str_nat (nat i))"

definition zfill :: "nat \<Rightarrow> string \<Rightarrow> string" where
  "zfill w s = replicate (w - length s) CHR ''0'' @ s"

text \<open>\<open>str(v)\<close>, which an f-string applies to a value of these types.\<close>

fun py_str :: "pyruntime \<Rightarrow> pyval \<Rightarrow> string" where
  "py_str py VNone = ''None''"
| "py_str py (VBool b) = (if b then ''True'' else ''False'')"
| "py_str py (VInt i) = str_int i"
| "py_str py (VFloat f) = str_float py f"
| "py_str py (VStr s) = s"
| "py_str py (VDatetime d) = str_datetime py d"

text \<open>
  \<open>dt.strftime('%Y-%m-%dT%H:%M:%SZ')\<close>: the month, day, hour, minute and second as two
  digits each, the microsecond and the offset not printed.  The year is printed by the C
  library: the GNU one, modelled here, prints it without padding (\<open>999\<close>), others pad it to
  four digits; from year 1000 on all agree.
\<close>

definition strftime :: "datetime \<Rightarrow> string" where
  "strftime dt =
     str_nat (year dt) @ ''-'' @ zfill 2 (str_nat (month dt)) @ ''-''
       @ zfill 2 (str_nat (day dt)) @ ''T'' @ zfill 2 (str_nat (hour dt)) @ '':''
       @ zfill 2 (str_nat (minute dt)) @ '':'' @ zfill 2 (str_nat (second dt)) @ ''Z''"

text \<open>
  \<open>dt.isoformat()\<close> of a naive datetime, the strings \<open>fromisoformat\<close> is made to read:
  \<open>YYYY-MM-DDTHH:MM:SS\<close>, with the year always padded to four digits, followed by
  \<open>.ffffff\<close> when the microsecond is not zero.
\<close>

definition isoformat_seconds :: "datetime \<Rightarrow> string" where
  "isoformat_seconds dt =
     zfill 4 (str_nat (year dt)) @ ''-'' @ zfill 2 (str_nat (month dt)) @ ''-''
       @ zfill 2 (str_nat (day dt)) @ ''T'' @ zfill 2 (str_nat (hour dt)) @ '':''
       @ zfill 2 (str_nat (minute dt)) @ '':'' @ zfill 2 (str_nat (second dt))"

definition isoformat :: "datetime \<Rightarrow> string" where
  "isoformat dt =
     isoformat_seconds dt
       @ (if microsecond dt = 0 then [] else ''.'' @ zfill 6 (str_nat (microsecond dt)))"

section \<open>\<open>_parse_datetime\<close>\<close>

definition endswith_Z :: "string \<Rightarrow> bool" where
  "endswith_Z s = (s \<noteq> [] \<and> last s = CHR ''Z'')"

definition invalid_datetime_msg :: "string \<Rightarrow> string" where
  "invalid_datetime_msg s =
     ''Invalid datetime_utc: '' @ [CHR 0x27] @ s @ [CHR 0x27] @ ''. Use ''
       @ [CHR 0x27] @ ''YYYY-MM-DDTHH:MM:SSZ'' @ [CHR 0x27] @ ''.''"

definition not_a_datetime_msg :: string where
  "not_a_datetime_msg =
     ''datetime_utc must be an ISO8601 string ending in '' @ [CHR 0x27] @ ''Z'' @ [CHR 0x27]
       @ '' or a datetime instance.''"

fun parse_datetime :: "pyruntime \<Rightarrow> pyval \<Rightarrow> exn + datetime" where
  "parse_datetime py (VStr dt_input) =
     (let s = (if endswith_Z dt_input then butlast dt_input else dt_input)
      in case fromisoformat py s of
           Some d \<Rightarrow> Inr d
         | None \<Rightarrow> Inl (ValueError (invalid_datetime_msg dt_input)))"
| "parse_datetime py (VDatetime d) = Inr d"
| "parse_datetime py _ = Inl (ValueError not_a_datetime_msg)"

section \<open>Coordinates\<close>

text \<open>
  \<open>float(v)\<close>; \<open>None\<close> when it raises (the source catches every exception of the
  conversion).  An integer too large for a float raises in Python and is far out of range
  here: the caller rejects it either way.
\<close>

fun py_float :: "pyruntime \<Rightarrow> pyval \<Rightarrow> pyfloat option" where
  "py_float py VNone = None"
| "py_float py (VBool b) = Some (Fin (if b then 1 else 0))"
| "py_float py (VInt i) = Some (Fin (of_int i))"
| "py_float py (VFloat f) = Some f"
| "py_float py (VStr s) = float_of_str py s"
| "py_float py (VDatetime d) = None"

definition latitude_msg :: "pyruntime \<Rightarrow> pyval \<Rightarrow> string" where
  "latitude_msg py v = ''Latitude must be between -90 and 90. Got: '' @ py_str py v @ ''.''"

definition longitude_msg :: "pyruntime \<Rightarrow> pyval \<Rightarrow> string" where
  "longitude_msg py v = ''Longitude must be between -180 and 180. Got: '' @ py_str py v @ ''.''"

definition check_latitude :: "pyruntime \<Rightarrow> pyval \<Rightarrow> exn + pyfloat" where
  "check_latitude py v =
     (case py_float py v of
        None \<Rightarrow> Inl (ValueError (latitude_msg py v))
      | Some lat \<Rightarrow>
          if \<not> (fle (Fin (- 90)) lat \<and> fle lat (Fin 90))
          then Inl (ValueError (latitude_msg py v))
          else Inr lat)"

definition check_longitude :: "pyruntime \<Rightarrow> pyval \<Rightarrow> exn + pyfloat" where
  "check_longitude py v =
     (case py_float py v of
        None \<Rightarrow> Inl (ValueError (longitude_msg py v))
      | Some lon \<Rightarrow>
          if \<not> (fle (Fin (- 180)) lon \<and> fle lon (Fin 180))
          then Inl (ValueError (longitude_msg py v))
          else Inr lon)"

section \<open>The chart builder\<close>

text \<open>Sequencing: an exception ends the computation.\<close>

definition then_do :: "exn + 'a \<Rightarrow> ('a \<Rightarrow> exn + 'b) \<Rightarrow> exn + 'b" where
  "then_do m f = (case m of Inl e \<Rightarrow> Inl e | Inr x \<Rightarrow> f x)"

text \<open>\<open>xs[i]\<close> on a tuple or list: a negative index counts from the end.\<close>

definition seq_index :: "string \<Rightarrow> pyobj list \<Rightarrow> int \<Rightarrow> exn + pyobj" where
  "seq_index kind xs i =
     (if 0 \<le> i \<and> i < int (length xs) then Inr (xs ! nat i)
      else if i < 0 \<and> - int (length xs) \<le> i then Inr (xs ! nat (int (length xs) + i))
      else Inl (IndexError (kind @ '' index out of range'')))"

fun py_index :: "pyobj \<Rightarrow> int \<Rightarrow> exn + pyobj" where
  "py_index (Tup xs) i = seq_index ''tuple'' xs i"
| "py_index (Lst xs) i = seq_index ''list'' xs i"
| "py_index (Num f) i =
     Inl (TypeError ([CHR 0x27] @ ''float'' @ [CHR 0x27] @ '' object is not subscriptable''))"

text \<open>\<open>isinstance(result, tuple) and len(result) == 2\<close>\<close>

fun is_tuple2 :: "pyobj \<Rightarrow> bool" where
  "is_tuple2 (Tup xs) = (length xs = 2)"
| "is_tuple2 _ = False"

definition four ::
    "pyobj \<Rightarrow> int \<Rightarrow> int \<Rightarrow> int \<Rightarrow> int \<Rightarrow> exn + (pyobj \<times> pyobj \<times> pyobj \<times> pyobj)" where
  "four obj i j k l =
     then_do (py_index obj i) (\<lambda>a.
     then_do (py_index obj j) (\<lambda>b.
     then_do (py_index obj k) (\<lambda>c.
     then_do (py_index obj l) (\<lambda>d. Inr (a, b, c, d)))))"

text \<open>
  Lines 80 to 89 of \<open>build_chart\<close>: \<open>(lon_deg, lat_deg, dist, speed)\<close> from what \<open>calc_ut\<close>
  returned.  A tuple of two elements is taken as \<open>(data, flag)\<close> and \<open>data[0]\<close> to \<open>data[3]\<close>
  are read; anything else is indexed from its end.
\<close>

definition unpack :: "pyobj \<Rightarrow> exn + (pyobj \<times> pyobj \<times> pyobj \<times> pyobj)" where
  "unpack result =
     (if is_tuple2 result
      then then_do (py_index result 0) (\<lambda>data. four data 0 1 2 3)
      else four result (- 4) (- 3) (- 2) (- 1))"

text \<open>\<open>speed < 0\<close>: a sequence and an integer are not ordered.\<close>

definition not_ordered_msg :: "string \<Rightarrow> string" where
  "not_ordered_msg kind =
     [CHR 0x27] @ ''<'' @ [CHR 0x27] @ '' not supported between instances of ''
       @ [CHR 0x27] @ kind @ [CHR 0x27] @ '' and '' @ [CHR 0x27] @ ''int'' @ [CHR 0x27]"

fun py_lt_zero :: "pyobj \<Rightarrow> exn + bool" where
  "py_lt_zero (Num f) = Inr (flt f (Fin 0))"
| "py_lt_zero (Tup xs) = Inl (TypeError (not_ordered_msg ''tuple''))"
| "py_lt_zero (Lst xs) = Inl (TypeError (not_ordered_msg ''list''))"

record placement =
  longitude :: pyobj
  latitude :: pyobj
  distance_au :: pyobj
  speed :: pyobj
  retrograde :: bool

type_synonym placements = "(string \<times> placement) list"

text \<open>The dictionary stored for one body (lines 80 to 96).\<close>

definition body_placement :: "pyobj \<Rightarrow> exn + placement" where
  "body_placement result =
     then_do (unpack result) (\<lambda>(lon_deg, lat_deg, dist, spd).
     then_do (py_lt_zero spd) (\<lambda>retro.
       Inr \<lparr>longitude = lon_deg, latitude = lat_deg, distance_au = dist,
            speed = spd, retrograde = retro\<rparr>))"

definition bodies :: "body list" where
  "bodies = [SUN, MOON, MERCURY, VENUS, MARS, JUPITER, SATURN, URANUS, NEPTUNE, PLUTO,
             CHIRON, MEAN_NODE, MEAN_APOG]"

definition calc_failed_msg :: "string \<Rightarrow> string \<Rightarrow> string" where
  "calc_failed_msg nm e = ''Failed to calculate '' @ nm @ '': '' @ e"

text \<open>The loop over \<open>bodies\<close> (lines 72 to 96), with the dictionary built so far.\<close>

fun calc_bodies :: "provider \<Rightarrow> pyfloat \<Rightarrow> body list \<Rightarrow> placements \<Rightarrow> exn + placements" where
  "calc_bodies prov jd [] pl = Inr pl"
| "calc_bodies prov jd (code # rest) pl =
     (case calc_ut prov jd code of
        Inl e \<Rightarrow> Inl (RuntimeError (calc_failed_msg (get_planet_name prov code) e))
      | Inr result \<Rightarrow>
          then_do (body_placement result) (\<lambda>p.
            calc_bodies prov jd rest (dict_set pl (get_planet_name prov code) p)))"

definition houses_failed_msg :: "string \<Rightarrow> string" where
  "houses_failed_msg e = ''Failed to compute houses/angles: '' @ e"

text \<open>
  Lines 99 to 107: the \<open>angles\<close> dictionary.  Reading \<open>ascmc[0]\<close> or \<open>ascmc[1]\<close> out of
  range raises inside the \<open>try\<close>, as a failure of the provider does.
\<close>

definition house_angles ::
    "provider \<Rightarrow> pyfloat \<Rightarrow> pyfloat \<Rightarrow> pyfloat \<Rightarrow> exn + (string \<times> pyfloat) list" where
  "house_angles prov jd lat lon =
     (case houses_ex prov jd lat lon ''P'' of
        Inl e \<Rightarrow> Inl (RuntimeError (houses_failed_msg e))
      | Inr (cusps, ascmc) \<Rightarrow>
          if length ascmc < 2
          then Inl (RuntimeError (houses_failed_msg ''tuple index out of range''))
          else
            let asc = ascmc ! 0; mc = ascmc ! 1;
                dc = pymod (fadd asc (Fin 180)) 360;
                ic = pymod (fadd mc (Fin 180)) 360
            in Inr [(''Ascendant'', asc), (''Midheaven'', mc), (''Descendant'', dc), (''IC'', ic)])"

definition angle_placement :: "pyfloat \<Rightarrow> placement" where
  "angle_placement angle =
     \<lparr>longitude = Num angle, latitude = Num (Fin 0), distance_au = Num (Fin 0),
      speed = Num (Fin 0), retrograde = False\<rparr>"

text \<open>Lines 108 and 109: the loop over \<open>angles.items()\<close>.\<close>

fun set_angles :: "(string \<times> pyfloat) list \<Rightarrow> placements \<Rightarrow> placements" where
  "set_angles [] pl = pl"
| "set_angles ((nm, angle) # rest) pl = set_angles rest (dict_set pl nm (angle_placement angle))"

text \<open>
  The dictionary \<open>build_chart\<close> returns; the fields are prefixed with \<open>res_\<close> to keep them
  apart from those of a placement.
\<close>

record chart_result =
  res_name :: pyval
  res_datetime_utc :: string
  res_latitude :: pyfloat
  res_longitude :: pyfloat
  res_julian_day :: pyfloat
  res_placements :: placements

text \<open>\<open>dt.hour + dt.minute/60 + dt.second/3600\<close>\<close>

definition fractional_hour :: "datetime \<Rightarrow> pyfloat" where
  "fractional_hour dt = Fin (real (hour dt) + real (minute dt) / 60 + real (second dt) / 3600)"

definition julday_failed_msg :: "string \<Rightarrow> string" where
  "julday_failed_msg e = ''Failed to compute Julian Day: '' @ e"

definition compute_jd :: "provider \<Rightarrow> datetime \<Rightarrow> exn + pyfloat" where
  "compute_jd prov dt =
     (case julday prov (year dt) (month dt) (day dt) (fractional_hour dt) of
        Inl e \<Rightarrow> Inl (RuntimeError (julday_failed_msg e))
      | Inr jd \<Rightarrow> Inr jd)"

definition build_chart :: "pyruntime \<Rightarrow> provider \<Rightarrow> payload \<Rightarrow> exn + chart_result" where
  "build_chart py prov payload =
     then_do (parse_datetime py (dict_get payload ''datetime_utc'' (VStr ''''))) (\<lambda>dt.
     then_do (check_latitude py (dict_get payload ''latitude'' VNone)) (\<lambda>lat.
     then_do (check_longitude py (dict_get payload ''longitude'' VNone)) (\<lambda>lon.
     then_do (compute_jd prov dt) (\<lambda>jd.
     then_do (calc_bodies prov jd bodies []) (\<lambda>pl.
     then_do (house_angles prov jd lat lon) (\<lambda>angles.
       Inr \<lparr>res_name = dict_get payload ''name'' VNone,
            res_datetime_utc = strftime dt,
            res_latitude = lat,
            res_longitude = lon,
            res_julian_day = jd,
            res_placements = set_angles angles pl\<rparr>))))))"

section \<open>A reference \<open>datetime.fromisoformat\<close>\<close>

text \<open>
  \<open>datetime.fromisoformat\<close> belongs to the Python library, not to the repository, and the
  theorems below hold for any function in its place.  For the examples, this is a model of
  the format it is documented to read since it exists:
  \<open>YYYY-MM-DD[*HH[:MM[:SS[.fff[fff]]]][+HH:MM[:SS[.ffffff]]]]\<close>, where \<open>*\<close> is any one
  character and the sign of the offset is \<open>+\<close> or \<open>-\<close>.  Later versions of the library read
  more strings.  The fields must form a date and a time that exist; an offset must be
  less than a day.
\<close>

definition digit_val :: "char \<Rightarrow> nat option" where
  "digit_val c =
     (let n = (of_char c :: nat) in if 48 \<le> n \<and> n \<le> 57 then Some (n - 48) else None)"

fun digits_acc :: "nat \<Rightarrow> string \<Rightarrow> nat option" where
  "digits_acc acc [] = Some acc"
| "digits_acc acc (c # cs) =
     (case digit_val c of None \<Rightarrow> None | Some d \<Rightarrow> digits_acc (acc * 10 + d) cs)"

definition parse_digits :: "string \<Rightarrow> nat option" where
  "parse_digits s = (if s = [] then None else digits_acc 0 s)"

text \<open>The slice \<open>s[a:b]\<close> for \<open>0 \<le> a \<le> b\<close>.\<close>

definition slice :: "string \<Rightarrow> nat \<Rightarrow> nat \<Rightarrow> string" where
  "slice s a b = take (b - a) (drop a s)"

definition is_leap :: "nat \<Rightarrow> bool" where
  "is_leap y = (y mod 4 = 0 \<and> (y mod 100 \<noteq> 0 \<or> y mod 400 = 0))"

definition days_in_month :: "nat \<Rightarrow> nat \<Rightarrow> nat" where
  "days_in_month y m =
     (if m = 2 then (if is_leap y then 29 else 28)
      else if m = 4 \<or> m = 6 \<or> m = 9 \<or> m = 11 then 30 else 31)"

text \<open>The checks of the \<open>datetime\<close> constructor.\<close>

definition valid_datetime :: "datetime \<Rightarrow> bool" where
  "valid_datetime d =
     (1 \<le> year d \<and> year d \<le> 9999 \<and> 1 \<le> month d \<and> month d \<le> 12
      \<and> 1 \<le> day d \<and> day d \<le> days_in_month (year d) (month d)
      \<and> hour d < 24 \<and> minute d < 60 \<and> second d < 60 \<and> microsecond d < 1000000
      \<and> (case tzinfo d of None \<Rightarrow> True | Some off \<Rightarrow> \<bar>off\<bar> < 86400000000))"

text \<open>\<open>YYYY-MM-DD\<close>, ten characters.\<close>

definition parse_isoformat_date :: "string \<Rightarrow> (nat \<times> nat \<times> nat) option" where
  "parse_isoformat_date s =
     (if length s \<noteq> 10 \<or> s ! 4 \<noteq> CHR ''-'' \<or> s ! 7 \<noteq> CHR ''-'' then None
      else case (parse_digits (slice s 0 4), parse_digits (slice s 5 7),
                 parse_digits (slice s 8 10)) of
             (Some y, Some m, Some d) \<Rightarrow> Some (y, m, d)
           | _ \<Rightarrow> None)"

text \<open>\<open>.fff\<close> or \<open>.ffffff\<close>, in microseconds; the empty string is no fraction.\<close>

definition parse_fraction :: "string \<Rightarrow> nat option" where
  "parse_fraction s =
     (if s = [] then Some 0
      else if hd s \<noteq> CHR ''.'' then None
      else if length s = 4 then map_option (\<lambda>n. n * 1000) (parse_digits (tl s))
      else if length s = 7 then parse_digits (tl s)
      else None)"

text \<open>\<open>HH[:MM[:SS[.fff[fff]]]]\<close>\<close>

definition parse_hh_mm_ss_ff :: "string \<Rightarrow> (nat \<times> nat \<times> nat \<times> nat) option" where
  "parse_hh_mm_ss_ff s =
     (if length s = 2 then
        map_option (\<lambda>h. (h, 0, 0, 0)) (parse_digits s)
      else if length s = 5 \<and> s ! 2 = CHR '':'' then
        (case (parse_digits (slice s 0 2), parse_digits (slice s 3 5)) of
           (Some h, Some m) \<Rightarrow> Some (h, m, 0, 0)
         | _ \<Rightarrow> None)
      else if 8 \<le> length s \<and> s ! 2 = CHR '':'' \<and> s ! 5 = CHR '':'' then
        (case (parse_digits (slice s 0 2), parse_digits (slice s 3 5),
               parse_digits (slice s 6 8), parse_fraction (drop 8 s)) of
           (Some h, Some m, Some sec, Some us) \<Rightarrow> Some (h, m, sec, us)
         | _ \<Rightarrow> None)
      else None)"

text \<open>The position of the sign of the offset: the first \<open>-\<close>, else the first \<open>+\<close>.\<close>

definition find_char :: "char \<Rightarrow> string \<Rightarrow> nat option" where
  "find_char c s = (if c \<in> set s then Some (length (takeWhile (\<lambda>x. x \<noteq> c) s)) else None)"

definition tz_pos :: "string \<Rightarrow> nat option" where
  "tz_pos s = (case find_char CHR ''-'' s of Some i \<Rightarrow> Some i | None \<Rightarrow> find_char CHR ''+'' s)"

text \<open>The offset in microseconds.\<close>

definition parse_offset :: "char \<Rightarrow> string \<Rightarrow> int option" where
  "parse_offset sign s =
     (if length s \<noteq> 5 \<and> length s \<noteq> 8 \<and> length s \<noteq> 15 then None
      else case parse_hh_mm_ss_ff s of
             None \<Rightarrow> None
           | Some (h, m, sec, us) \<Rightarrow>
               Some ((if sign = CHR ''-'' then - 1 else 1)
                     * (int (h * 3600 + m * 60 + sec) * 1000000 + int us)))"

definition parse_isoformat_time :: "string \<Rightarrow> ((nat \<times> nat \<times> nat \<times> nat) \<times> int option) option" where
  "parse_isoformat_time s =
     (case tz_pos s of
        None \<Rightarrow> map_option (\<lambda>t. (t, None)) (parse_hh_mm_ss_ff s)
      | Some i \<Rightarrow>
          (case (parse_hh_mm_ss_ff (take i s), parse_offset (s ! i) (drop (Suc i) s)) of
             (Some t, Some off) \<Rightarrow> Some (t, Some off)
           | _ \<Rightarrow> None))"

definition make_datetime :: "nat \<times> nat \<times> nat \<Rightarrow> (nat \<times> nat \<times> nat \<times> nat) \<times> int option \<Rightarrow> datetime option" where
  "make_datetime ymd t =
     (case (ymd, t) of ((y, m, d), ((h, mi, sec, us), tz)) \<Rightarrow>
        (let dt = \<lparr>year = y, month = m, day = d, hour = h, minute = mi, second = sec,
                   microsecond = us, tzinfo = tz\<rparr>
         in if valid_datetime dt then Some dt else None))"

definition iso_fromisoformat :: "string \<Rightarrow> datetime option" where
  "iso_fromisoformat s =
     (case parse_isoformat_date (take 10 s) of
        None \<Rightarrow> None
      | Some ymd \<Rightarrow>
          if length s = 10 then make_datetime ymd ((0, 0, 0, 0), None)
          else (case parse_isoformat_time (drop 11 s) of
                  None \<Rightarrow> None
                | Some t \<Rightarrow> make_datetime ymd t))"

section \<open>Test doubles\<close>

text \<open>
  A runtime for the examples: the reference \<open>fromisoformat\<close>; no example converts a string
  to a float or prints a float or a datetime.
\<close>

definition test_runtime :: pyruntime where
  "test_runtime =
     \<lparr>fromisoformat = iso_fromisoformat, float_of_str = (\<lambda>s. None),
      str_float = (\<lambda>f. ''float''), str_datetime = (\<lambda>d. ''datetime'')\<rparr>"

text \<open>
  Modelled from the spec: the display names of the thirteen bodies, which the source takes
  from the provider (\<open>swe.get_planet_name\<close>) and does not define, and the names of the four
  angles, which are literals of the source.
\<close>

definition body_names :: "string list" where
  "body_names =
     [''Sun'', ''Moon'', ''Mercury'', ''Venus'', ''Mars'', ''Jupiter'', ''Saturn'', ''Uranus'',
      ''Neptune'', ''Pluto'', ''Chiron'', ''Mean Node'', ''Lilith(mean apogee)'']"

definition angle_names :: "string list" where
  "angle_names = [''Ascendant'', ''Midheaven'', ''Descendant'', ''IC'']"

fun spec_name :: "body \<Rightarrow> string" where
  "spec_name SUN = ''Sun''"
| "spec_name MOON = ''Moon''"
| "spec_name MERCURY = ''Mercury''"
| "spec_name VENUS = ''Venus''"
| "spec_name MARS = ''Mars''"
| "spec_name JUPITER = ''Jupiter''"
| "spec_name SATURN = ''Saturn''"
| "spec_name URANUS = ''Uranus''"
| "spec_name NEPTUNE = ''Neptune''"
| "spec_name PLUTO = ''Pluto''"
| "spec_name CHIRON = ''Chiron''"
| "spec_name MEAN_NODE = ''Mean Node''"
| "spec_name MEAN_APOG = ''Lilith(mean apogee)''"

text \<open>
  A provider stub: every body gets the result \<open>res\<close>, the Julian Day is a constant, and the
  angles are 10 and 280 degrees.
\<close>

definition stub_provider :: "pyobj \<Rightarrow> provider" where
  "stub_provider res =
     \<lparr>julday = (\<lambda>y m d h. Inr (Fin 2460389)),
      calc_ut = (\<lambda>jd b. Inr res),
      get_planet_name = spec_name,
      houses_ex = (\<lambda>jd lat lon hsys. Inr ([], [Fin 10, Fin 280]))\<rparr>"

text \<open>The stub with a failing lookup for one body.\<close>

definition failing_provider :: "body \<Rightarrow> provider" where
  "failing_provider bad =
     (stub_provider (Tup [Num (Fin 1), Num (Fin 2), Num (Fin 3), Num (Fin 4)]))
       \<lparr>calc_ut := (\<lambda>jd b. if b = bad then Inl ''ephemeris file not found''
                           else Inr (Tup [Num (Fin 1), Num (Fin 2), Num (Fin 3), Num (Fin 4)]))\<rparr>"

text \<open>
  The names \<open>swe.get_planet_name\<close> of the Swiss Ephemeris library gives the thirteen bodies
  (the library is not part of the repository): those of the specification, except for the
  last two.
\<close>

fun swe_name :: "body \<Rightarrow> string" where
  "swe_name MEAN_NODE = ''mean Node''"
| "swe_name MEAN_APOG = ''mean Apogee''"
| "swe_name b = spec_name b"

definition swe_provider :: "pyobj \<Rightarrow> provider" where
  "swe_provider res = (stub_provider res)\<lparr>get_planet_name := swe_name\<rparr>"

text \<open>A stub whose Julian Day depends on what it is asked: the date as a number, plus the hour.\<close>

definition clock_provider :: provider where
  "clock_provider =
     (stub_provider (Tup [Num (Fin 1), Num (Fin 2), Num (Fin 3), Num (Fin 4)]))
       \<lparr>julday := (\<lambda>y m d h. Inr (fadd (Fin (real (y * 10000 + m * 100 + d))) h))\<rparr>"

definition date_09990102 :: datetime where
  "date_09990102 =
     \<lparr>year = 999, month = 1, day = 2, hour = 3, minute = 4, second = 5, microsecond = 0,
      tzinfo = None\<rparr>"

definition test_payload :: "pyval \<Rightarrow> pyval \<Rightarrow> pyval \<Rightarrow> payload" where
  "test_payload dt lat lon =
     [''datetime_utc'' \<mapsto> dt, ''latitude'' \<mapsto> lat, ''longitude'' \<mapsto> lon]"

section \<open>Shapes of provider answers\<close>

fun seq_items :: "pyobj \<Rightarrow> pyobj list option" where
  "seq_items (Tup xs) = Some xs"
| "seq_items (Lst xs) = Some xs"
| "seq_items (Num f) = None"

fun is_num :: "pyobj \<Rightarrow> bool" where
  "is_num (Num f) = True"
| "is_num _ = False"

text \<open>
  An answer of \<open>calc_ut\<close> that \<open>build_chart\<close> can read: a pair whose first element is a
  sequence of at least four values with a number at index 3, or any other sequence of at
  least four values that ends with a number.
\<close>

definition well_shaped :: "pyobj \<Rightarrow> bool" where
  "well_shaped result =
     (case seq_items (if is_tuple2 result then hd (the (seq_items result)) else result) of
        None \<Rightarrow> False
      | Some xs \<Rightarrow>
          4 \<le> length xs \<and> is_num (if is_tuple2 result then xs ! 3 else last xs))"

text \<open>The provider answers every call of a chart for \<open>dt\<close>, \<open>lat\<close>, \<open>lon\<close>.\<close>

definition provider_answers :: "provider \<Rightarrow> datetime \<Rightarrow> pyfloat \<Rightarrow> pyfloat \<Rightarrow> bool" where
  "provider_answers prov dt lat lon =
     (case julday prov (year dt) (month dt) (day dt) (fractional_hour dt) of
        Inl e \<Rightarrow> False
      | Inr jd \<Rightarrow>
          list_all (\<lambda>b. case calc_ut prov jd b of Inl e \<Rightarrow> False | Inr res \<Rightarrow> well_shaped res)
            bodies
          \<and> (case houses_ex prov jd lat lon ''P'' of
                Inl e \<Rightarrow> False
              | Inr (cusps, ascmc) \<Rightarrow> 2 \<le> length ascmc))"

text \<open>The coordinate checks of \<open>build_chart\<close> as predicates on the raw value.\<close>

definition latitude_ok :: "pyruntime \<Rightarrow> pyval \<Rightarrow> bool" where
  "latitude_ok py v =
     (case py_float py v of None \<Rightarrow> False | Some f \<Rightarrow> fle (Fin (- 90)) f \<and> fle f (Fin 90))"

definition longitude_ok :: "pyruntime \<Rightarrow> pyval \<Rightarrow> bool" where
  "longitude_ok py v =
     (case py_float py v of None \<Rightarrow> False | Some f \<Rightarrow> fle (Fin (- 180)) f \<and> fle f (Fin 180))"

text \<open>Example answers: a plain four-tuple, and the pair of a six-tuple and a flag.\<close>

definition direct4 :: "pyfloat \<Rightarrow> pyobj" where
  "direct4 s = Tup [Num (Fin 1), Num (Fin 2), Num (Fin 3), Num s]"

definition wrapped6 :: pyobj where
  "wrapped6 =
     Tup [Tup [Num (Fin 1), Num (Fin 2), Num (Fin 3), Num (Fin 4), Num (Fin 5), Num (Fin 6)],
          Num (Fin 0)]"

definition date_20240320 :: datetime where
  "date_20240320 =
     \<lparr>year = 2024, month = 3, day = 20, hour = 3, minute = 6, second = 0, microsecond = 0,
      tzinfo = None\<rparr>"

section \<open>Properties of the model\<close>

subsection \<open>Sequencing\<close>

lemma then_do_Inr_iff: "then_do m f = Inr y \<longleftrightarrow> (\<exists>x. m = Inr x \<and> f x = Inr y)"
  by (cases m) (simp_all add: then_do_def)

lemma then_do_Inr: "then_do (Inr x) f = f x"
  by (simp add: then_do_def)

lemma then_do_Inl: "then_do (Inl e) f = Inl e"
  by (simp add: then_do_def)

subsection \<open>Dictionaries\<close>

lemma keys_dict_set:
  "keys (dict_set d k v) = (if k \<in> set (keys d) then keys d else keys d @ [k])"
  by (induction d) (force simp: keys_def)+

lemma map_of_dict_set: "map_of (dict_set d k v) = (map_of d)(k \<mapsto> v)"
  by (induction d) (auto simp: fun_eq_iff)

lemma set_dict_set: "set (dict_set d k v) \<subseteq> insert (k, v) (set d)"
  by (induction d) (auto split: if_splits)

lemma dict_set_keeps:
  "(k', v') \<in> set (dict_set d k v) \<Longrightarrow> k' \<noteq> k \<Longrightarrow> (k', v') \<in> set d"
  by (induction d) (auto split: if_splits)

lemma dict_set_value:
  "(k, v') \<in> set (dict_set d k v) \<Longrightarrow> distinct (keys d) \<Longrightarrow> v' = v"
  by (induction d) (force simp: keys_def split: if_splits)+

lemma distinct_keys_dict_set: "distinct (keys d) \<Longrightarrow> distinct (keys (dict_set d k v))"
  by (simp add: keys_dict_set)

subsection \<open>The loop over the bodies\<close>

lemma calc_bodies_Inr_Cons:
  "calc_bodies prov jd (code # rest) pl = Inr pl' \<longleftrightarrow>
     (\<exists>res p. calc_ut prov jd code = Inr res \<and> body_placement res = Inr p
        \<and> calc_bodies prov jd rest (dict_set pl (get_planet_name prov code) p) = Inr pl')"
  by (auto simp: then_do_Inr_iff split: sum.splits)

lemma calc_bodies_distinct:
  "calc_bodies prov jd bs pl = Inr pl' \<Longrightarrow> distinct (keys pl) \<Longrightarrow> distinct (keys pl')"
proof (induction bs arbitrary: pl)
  case Nil
  then show ?case by simp
next
  case (Cons code rest)
  then show ?case
    unfolding calc_bodies_Inr_Cons by (blast intro: distinct_keys_dict_set)
qed

lemma calc_bodies_keys:
  "calc_bodies prov jd bs pl = Inr pl' \<Longrightarrow> distinct (map (get_planet_name prov) bs) \<Longrightarrow>
   set (map (get_planet_name prov) bs) \<inter> set (keys pl) = {} \<Longrightarrow>
   keys pl' = keys pl @ map (get_planet_name prov) bs"
proof (induction bs arbitrary: pl)
  case Nil
  then show ?case by simp
next
  case (Cons code rest)
  from Cons.prems(1) obtain res p where
    step: "calc_bodies prov jd rest (dict_set pl (get_planet_name prov code) p) = Inr pl'"
    unfolding calc_bodies_Inr_Cons by blast
  have fresh: "get_planet_name prov code \<notin> set (keys pl)"
    using Cons.prems(3) by auto
  then have k: "keys (dict_set pl (get_planet_name prov code) p) = keys pl @ [get_planet_name prov code]"
    by (simp add: keys_dict_set)
  have "keys pl' = keys (dict_set pl (get_planet_name prov code) p) @ map (get_planet_name prov) rest"
  proof (rule Cons.IH [OF step])
    show "distinct (map (get_planet_name prov) rest)"
      using Cons.prems(2) by simp
    show "set (map (get_planet_name prov) rest) \<inter> set (keys (dict_set pl (get_planet_name prov code) p)) = {}"
      using Cons.prems(2,3) by (auto simp: k)
  qed
  then show ?case by (simp add: k)
qed

text \<open>Where every entry of the dictionary comes from.\<close>

lemma calc_bodies_origin:
  "calc_bodies prov jd bs pl = Inr pl' \<Longrightarrow> (k, p) \<in> set pl' \<Longrightarrow>
   (k, p) \<in> set pl \<or>
   (\<exists>b \<in> set bs. \<exists>res. k = get_planet_name prov b \<and> calc_ut prov jd b = Inr res
      \<and> body_placement res = Inr p)"
proof (induction bs arbitrary: pl)
  case Nil
  then show ?case by simp
next
  case (Cons code rest)
  from Cons.prems(1) obtain res q where
    res: "calc_ut prov jd code = Inr res" "body_placement res = Inr q" and
    step: "calc_bodies prov jd rest (dict_set pl (get_planet_name prov code) q) = Inr pl'"
    unfolding calc_bodies_Inr_Cons by blast
  from Cons.IH [OF step Cons.prems(2)] show ?case
  proof
    assume "(k, p) \<in> set (dict_set pl (get_planet_name prov code) q)"
    then have "(k, p) = (get_planet_name prov code, q) \<or> (k, p) \<in> set pl"
      using set_dict_set by fastforce
    then show ?thesis using res by auto
  next
    assume "\<exists>b\<in>set rest. \<exists>res. k = get_planet_name prov b \<and> calc_ut prov jd b = Inr res
      \<and> body_placement res = Inr p"
    then show ?thesis by auto
  qed
qed

text \<open>The first failing lookup ends the loop.\<close>

lemma calc_bodies_fails:
  "b \<in> set bs \<Longrightarrow> calc_ut prov jd b = Inl e \<Longrightarrow> calc_bodies prov jd bs pl \<noteq> Inr pl'"
proof (induction bs arbitrary: pl)
  case Nil
  then show ?case by simp
next
  case (Cons code rest)
  then show ?case
    unfolding calc_bodies_Inr_Cons by (cases "code = b") auto
qed

lemma calc_bodies_first_failure:
  "b \<in> set bs \<Longrightarrow> calc_ut prov jd b = Inl e \<Longrightarrow>
   list_all (\<lambda>b'. case calc_ut prov jd b' of Inl e \<Rightarrow> False | Inr res \<Rightarrow> well_shaped res)
     (takeWhile (\<lambda>x. x \<noteq> b) bs) \<Longrightarrow>
   (\<And>res. well_shaped res \<Longrightarrow> \<exists>p. body_placement res = Inr p) \<Longrightarrow>
   calc_bodies prov jd bs pl = Inl (RuntimeError (calc_failed_msg (get_planet_name prov b) e))"
proof (induction bs arbitrary: pl)
  case Nil
  then show ?case by simp
next
  case (Cons code rest)
  show ?case
  proof (cases "code = b")
    case True
    then show ?thesis using Cons.prems(2) by simp
  next
    case False
    with Cons.prems(3) obtain res where res: "calc_ut prov jd code = Inr res" "well_shaped res"
      by (auto split: sum.splits)
    from Cons.prems(4) [OF res(2)] obtain p where p: "body_placement res = Inr p" by blast
    have "calc_bodies prov jd rest (dict_set pl (get_planet_name prov code) p)
          = Inl (RuntimeError (calc_failed_msg (get_planet_name prov b) e))"
      using Cons.prems False by (intro Cons.IH) auto
    then show ?thesis using res p by (simp add: then_do_Inr)
  qed
qed

subsection \<open>Reading an answer of the provider\<close>

lemma seq_index_nonneg:
  "i < length xs \<Longrightarrow> seq_index kind xs (int i) = Inr (xs ! i)"
  by (simp add: seq_index_def)

lemma seq_index_from_end:
  "0 < i \<Longrightarrow> i \<le> length xs \<Longrightarrow> seq_index kind xs (- int i) = Inr (xs ! (length xs - i))"
  by (simp add: seq_index_def nat_diff_distrib' of_nat_diff)

lemma py_index_items:
  "seq_items obj = Some xs \<Longrightarrow> i < length xs \<Longrightarrow> py_index obj (int i) = Inr (xs ! i)"
  by (cases obj) (simp_all add: seq_index_nonneg)

lemma py_index_items_from_end:
  "seq_items obj = Some xs \<Longrightarrow> 0 < i \<Longrightarrow> i \<le> length xs \<Longrightarrow>
   py_index obj (- int i) = Inr (xs ! (length xs - i))"
  by (cases obj) (simp_all add: seq_index_from_end)

text \<open>A pair \<open>(data, flag)\<close>: the first four values of \<open>data\<close>.\<close>

lemma unpack_wrapped:
  assumes "seq_items data = Some ys" and "4 \<le> length ys"
  shows "unpack (Tup [data, flag]) = Inr (ys ! 0, ys ! 1, ys ! 2, ys ! 3)"
proof -
  have len: "0 < length ys" "1 < length ys" "2 < length ys" "3 < length ys"
    using assms(2) by auto
  have "py_index data 0 = Inr (ys ! 0)"
    using py_index_items [OF assms(1) len(1)] by simp
  moreover have "py_index data 1 = Inr (ys ! 1)"
    using py_index_items [OF assms(1) len(2)] by simp
  moreover have "py_index data 2 = Inr (ys ! 2)"
    using py_index_items [OF assms(1) len(3)] by simp
  moreover have "py_index data 3 = Inr (ys ! 3)"
    using py_index_items [OF assms(1) len(4)] by simp
  ultimately show ?thesis
    by (simp add: unpack_def four_def then_do_Inr seq_index_def)
qed

text \<open>Any other sequence: its last four values.\<close>

lemma unpack_direct:
  assumes "seq_items result = Some xs" and "4 \<le> length xs" and "\<not> is_tuple2 result"
  shows "unpack result =
           Inr (xs ! (length xs - 4), xs ! (length xs - 3), xs ! (length xs - 2),
                xs ! (length xs - 1))"
proof -
  have "py_index result (- 4) = Inr (xs ! (length xs - 4))"
       "py_index result (- 3) = Inr (xs ! (length xs - 3))"
       "py_index result (- 2) = Inr (xs ! (length xs - 2))"
       "py_index result (- 1) = Inr (xs ! (length xs - 1))"
    using py_index_items_from_end [OF assms(1), of 4] py_index_items_from_end [OF assms(1), of 3]
      py_index_items_from_end [OF assms(1), of 2] py_index_items_from_end [OF assms(1), of 1]
      assms(2)
    by simp_all
  then show ?thesis
    using assms(3) by (simp add: unpack_def four_def then_do_Inr)
qed

lemma is_tuple2_items:
  "is_tuple2 result \<Longrightarrow> \<exists>data flag. result = Tup [data, flag]"
proof (cases result)
  case (Tup xs)
  assume "is_tuple2 result"
  with Tup have "length xs = 2" by simp
  then obtain a b where "xs = [a, b]"
    by (cases xs; cases "tl xs") auto
  with Tup show ?thesis by simp
qed simp_all

lemma is_num_lt_zero: "is_num v \<Longrightarrow> \<exists>b. py_lt_zero v = Inr b"
  by (cases v) simp_all

lemma well_shaped_placement:
  assumes "well_shaped result"
  shows "\<exists>p. body_placement result = Inr p"
proof (cases "is_tuple2 result")
  case True
  then obtain data flag where r: "result = Tup [data, flag]"
    using is_tuple2_items by blast
  with assms obtain ys where ys: "seq_items data = Some ys" "4 \<le> length ys" "is_num (ys ! 3)"
    by (auto simp: well_shaped_def split: option.splits)
  from is_num_lt_zero [OF ys(3)] obtain b where "py_lt_zero (ys ! 3) = Inr b" ..
  then show ?thesis
    by (simp add: body_placement_def r unpack_wrapped [OF ys(1,2)] then_do_Inr)
next
  case False
  with assms obtain xs where xs: "seq_items result = Some xs" "4 \<le> length xs" "is_num (last xs)"
    by (auto simp: well_shaped_def split: option.splits)
  then have "last xs = xs ! (length xs - 1)"
    by (cases xs rule: rev_cases) auto
  with is_num_lt_zero [OF xs(3)] obtain b where "py_lt_zero (xs ! (length xs - 1)) = Inr b"
    by auto
  then show ?thesis
    by (simp add: body_placement_def unpack_direct [OF xs(1,2) False] then_do_Inr)
qed

lemma body_placement_Inr:
  "body_placement result = Inr p \<Longrightarrow>
   unpack result = Inr (longitude p, latitude p, distance_au p, speed p)
   \<and> py_lt_zero (speed p) = Inr (retrograde p)"
  by (auto simp: body_placement_def then_do_Inr_iff)

lemma angle_placement_lt_zero:
  "py_lt_zero (speed (angle_placement a)) = Inr (retrograde (angle_placement a))"
  by (simp add: angle_placement_def)

text \<open>Enough well-shaped answers make the loop succeed.\<close>

lemma calc_bodies_succeeds:
  "list_all (\<lambda>b. case calc_ut prov jd b of Inl e \<Rightarrow> False | Inr res \<Rightarrow> well_shaped res) bs \<Longrightarrow>
   \<exists>pl'. calc_bodies prov jd bs pl = Inr pl'"
proof (induction bs arbitrary: pl)
  case Nil
  then show ?case by simp
next
  case (Cons code rest)
  then obtain res where res: "calc_ut prov jd code = Inr res" "well_shaped res"
    by (auto split: sum.splits)
  from well_shaped_placement [OF res(2)] obtain p where p: "body_placement res = Inr p" ..
  from Cons.IH [of "dict_set pl (get_planet_name prov code) p"] Cons.prems
  obtain pl' where "calc_bodies prov jd rest (dict_set pl (get_planet_name prov code) p) = Inr pl'"
    by auto
  then show ?case using res p by (simp add: then_do_Inr)
qed

subsection \<open>The angles\<close>

lemma keys_set_angles:
  "distinct (map fst angles) \<Longrightarrow> set (map fst angles) \<inter> set (keys pl) = {} \<Longrightarrow>
   keys (set_angles angles pl) = keys pl @ map fst angles"
proof (induction angles arbitrary: pl)
  case Nil
  then show ?case by simp
next
  case (Cons a rest)
  obtain nm angle where a: "a = (nm, angle)" by (cases a)
  have fresh: "nm \<notin> set (keys pl)" using Cons.prems(2) a by auto
  have "keys (set_angles rest (dict_set pl nm (angle_placement angle)))
        = keys (dict_set pl nm (angle_placement angle)) @ map fst rest"
    using Cons.prems a fresh by (intro Cons.IH) (auto simp: keys_dict_set)
  then show ?case using a fresh by (simp add: keys_dict_set)
qed

lemma map_of_set_angles:
  "distinct (map fst angles) \<Longrightarrow>
   map_of (set_angles angles pl) k =
     (case map_of angles k of None \<Rightarrow> map_of pl k | Some a \<Rightarrow> Some (angle_placement a))"
proof (induction angles arbitrary: pl)
  case Nil
  then show ?case by simp
next
  case (Cons a rest)
  obtain nm angle where a: "a = (nm, angle)" by (cases a)
  have "nm \<notin> fst ` set rest" using Cons.prems a by auto
  then have "map_of rest nm = None" by (simp add: map_of_eq_None_iff)
  then show ?case
    using Cons.prems a by (auto simp: Cons.IH map_of_dict_set split: option.splits)
qed

lemma set_angles_origin:
  "(k, p) \<in> set (set_angles angles pl) \<Longrightarrow>
   (k, p) \<in> set pl \<or> (\<exists>a. (k, a) \<in> set angles \<and> p = angle_placement a)"
proof (induction angles arbitrary: pl)
  case Nil
  then show ?case by simp
next
  case (Cons a rest)
  obtain nm angle where a: "a = (nm, angle)" by (cases a)
  from Cons.IH [of "dict_set pl nm (angle_placement angle)"] Cons.prems a
  consider "(k, p) \<in> set (dict_set pl nm (angle_placement angle))"
    | "\<exists>a. (k, a) \<in> set rest \<and> p = angle_placement a"
    by auto
  then show ?case
  proof cases
    case 1
    then have "(k, p) = (nm, angle_placement angle) \<or> (k, p) \<in> set pl"
      using set_dict_set by fastforce
    then show ?thesis using a by auto
  next
    case 2
    then show ?thesis by auto
  qed
qed

subsection \<open>The steps of \<open>build_chart\<close>\<close>

lemma check_latitude_Inr:
  "check_latitude py v = Inr lat \<longleftrightarrow>
     py_float py v = Some lat \<and> fle (Fin (- 90)) lat \<and> fle lat (Fin 90)"
  by (auto simp: check_latitude_def split: option.splits)

lemma check_longitude_Inr:
  "check_longitude py v = Inr lon \<longleftrightarrow>
     py_float py v = Some lon \<and> fle (Fin (- 180)) lon \<and> fle lon (Fin 180)"
  by (auto simp: check_longitude_def split: option.splits)

lemma check_latitude_cases:
  "check_latitude py v =
     (if latitude_ok py v then Inr (the (py_float py v)) else Inl (ValueError (latitude_msg py v)))"
  by (auto simp: check_latitude_def latitude_ok_def split: option.splits)

lemma check_longitude_cases:
  "check_longitude py v =
     (if longitude_ok py v then Inr (the (py_float py v)) else Inl (ValueError (longitude_msg py v)))"
  by (auto simp: check_longitude_def longitude_ok_def split: option.splits)

lemma compute_jd_Inr:
  "compute_jd prov dt = Inr jd \<longleftrightarrow>
     julday prov (year dt) (month dt) (day dt) (fractional_hour dt) = Inr jd"
  by (auto simp: compute_jd_def split: sum.splits)

lemma house_angles_Inr:
  "house_angles prov jd lat lon = Inr angles \<longleftrightarrow>
     (\<exists>cusps ascmc. houses_ex prov jd lat lon ''P'' = Inr (cusps, ascmc) \<and> 2 \<le> length ascmc
        \<and> angles = [(''Ascendant'', ascmc ! 0), (''Midheaven'', ascmc ! 1),
                     (''Descendant'', pymod (fadd (ascmc ! 0) (Fin 180)) 360),
                     (''IC'', pymod (fadd (ascmc ! 1) (Fin 180)) 360)])"
  by (auto simp: house_angles_def Let_def split: sum.splits)

lemma house_angles_names:
  "house_angles prov jd lat lon = Inr angles \<Longrightarrow> map fst angles = angle_names"
  by (auto simp: house_angles_Inr angle_names_def)

lemma build_chart_Inr:
  "build_chart py prov payload = Inr r \<longleftrightarrow>
     (\<exists>dt lat lon jd pl angles.
        parse_datetime py (dict_get payload ''datetime_utc'' (VStr '''')) = Inr dt
        \<and> check_latitude py (dict_get payload ''latitude'' VNone) = Inr lat
        \<and> check_longitude py (dict_get payload ''longitude'' VNone) = Inr lon
        \<and> compute_jd prov dt = Inr jd
        \<and> calc_bodies prov jd bodies [] = Inr pl
        \<and> house_angles prov jd lat lon = Inr angles
        \<and> r = \<lparr>res_name = dict_get payload ''name'' VNone, res_datetime_utc = strftime dt,
                 res_latitude = lat, res_longitude = lon, res_julian_day = jd,
                 res_placements = set_angles angles pl\<rparr>)"
  unfolding build_chart_def then_do_Inr_iff by auto

lemma distinct_angle_names: "distinct angle_names"
  by (simp add: angle_names_def)

lemma distinct_body_names: "distinct body_names"
  by (simp add: body_names_def)

lemma body_names_not_angles: "set body_names \<inter> set angle_names = {}"
  by (simp add: body_names_def angle_names_def)

subsection \<open>The test doubles\<close>

lemmas iso_defs = iso_fromisoformat_def parse_isoformat_date_def parse_isoformat_time_def
  parse_hh_mm_ss_ff_def parse_fraction_def parse_digits_def digit_val_def slice_def
  make_datetime_def valid_datetime_def days_in_month_def is_leap_def tz_pos_def find_char_def
  parse_offset_def

lemma iso_20240320: "iso_fromisoformat ''2024-03-20T03:06:00'' = Some date_20240320"
  by (simp add: iso_defs date_20240320_def)

lemma test_parse_Z:
  "parse_datetime test_runtime
     (dict_get (test_payload (VStr ''2024-03-20T03:06:00Z'') la lo) ''datetime_utc'' (VStr ''''))
   = Inr date_20240320"
  by (simp add: dict_get_def test_payload_def test_runtime_def endswith_Z_def iso_20240320)

lemma test_payload_get:
  "dict_get (test_payload d la lo) ''latitude'' VNone = la"
  "dict_get (test_payload d la lo) ''longitude'' VNone = lo"
  "dict_get (test_payload d la lo) ''datetime_utc'' (VStr '''') = d"
  by (simp_all add: dict_get_def test_payload_def)

lemma stub_names: "map (get_planet_name (stub_provider res)) bodies = body_names"
  by (simp add: stub_provider_def bodies_def body_names_def)

lemma well_shaped_wrapped6: "well_shaped wrapped6"
  by (simp add: well_shaped_def wrapped6_def)

lemma well_shaped_direct4: "well_shaped (direct4 s)"
  by (simp add: well_shaped_def direct4_def)

lemma stub_answers: "well_shaped res \<Longrightarrow> provider_answers (stub_provider res) dt lat lon"
  by (simp add: provider_answers_def stub_provider_def bodies_def)

lemma zero_ok: "latitude_ok test_runtime (VInt 0)" "longitude_ok test_runtime (VInt 0)"
  by (simp_all add: latitude_ok_def longitude_ok_def)

subsection \<open>Success and the keys of the result\<close>

lemma set_keys_dict_set: "set (keys (dict_set d k v)) = insert k (set (keys d))"
  by (auto simp: keys_dict_set)

lemma calc_bodies_key_set:
  "calc_bodies prov jd bs pl = Inr pl' \<Longrightarrow>
   set (keys pl') = set (keys pl) \<union> get_planet_name prov ` set bs"
proof (induction bs arbitrary: pl)
  case Nil
  then show ?case by simp
next
  case (Cons code rest)
  from Cons.prems obtain res p where
    step: "calc_bodies prov jd rest (dict_set pl (get_planet_name prov code) p) = Inr pl'"
    unfolding calc_bodies_Inr_Cons by blast
  from Cons.IH [OF step] show ?case
    by (simp add: set_keys_dict_set)
qed

lemma set_angles_key_set:
  "set (keys (set_angles angles pl)) = set (keys pl) \<union> fst ` set angles"
proof (induction angles arbitrary: pl)
  case Nil
  then show ?case by simp
next
  case (Cons a rest)
  obtain nm angle where a: "a = (nm, angle)" by (cases a)
  show ?case
    by (simp add: a Cons.IH set_keys_dict_set)
qed

lemma set_angles_distinct: "distinct (keys pl) \<Longrightarrow> distinct (keys (set_angles angles pl))"
proof (induction angles arbitrary: pl)
  case Nil
  then show ?case by simp
next
  case (Cons a rest)
  obtain nm angle where a: "a = (nm, angle)" by (cases a)
  from Cons.prems show ?case
    by (simp add: a Cons.IH distinct_keys_dict_set)
qed

lemma build_chart_key_set:
  assumes ok: "build_chart py prov payload = Inr r"
  shows "distinct (keys (res_placements r))"
    and "set (keys (res_placements r))
           = set (map (get_planet_name prov) bodies) \<union> set angle_names"
proof -
  from ok obtain jd lat lon pl angles where
    pl: "calc_bodies prov jd bodies [] = Inr pl" and
    angles: "house_angles prov jd lat lon = Inr angles" and
    r: "res_placements r = set_angles angles pl"
    unfolding build_chart_Inr by auto
  have "distinct (keys pl)"
    using pl by (rule calc_bodies_distinct) (simp add: keys_def)
  then show "distinct (keys (res_placements r))"
    by (simp add: r set_angles_distinct)
  have "set (keys pl) = get_planet_name prov ` set bodies"
    using calc_bodies_key_set [OF pl] by (simp add: keys_def)
  moreover have "fst ` set angles = set angle_names"
    using house_angles_names [OF angles] by (metis set_map)
  ultimately show "set (keys (res_placements r))
      = set (map (get_planet_name prov) bodies) \<union> set angle_names"
    by (simp add: r set_angles_key_set)
qed

lemma build_chart_keys:
  assumes d: "distinct (map (get_planet_name prov) bodies)"
    and a: "set (map (get_planet_name prov) bodies) \<inter> set angle_names = {}"
    and ok: "build_chart py prov payload = Inr r"
  shows "keys (res_placements r) = map (get_planet_name prov) bodies @ angle_names"
proof -
  from ok obtain jd lat lon pl angles where
    pl: "calc_bodies prov jd bodies [] = Inr pl" and
    angles: "house_angles prov jd lat lon = Inr angles" and
    r: "res_placements r = set_angles angles pl"
    unfolding build_chart_Inr by auto
  have "keys pl = keys ([] :: placements) @ map (get_planet_name prov) bodies"
    using pl d by (rule calc_bodies_keys) (simp add: keys_def)
  then have kpl: "keys pl = map (get_planet_name prov) bodies"
    by (simp add: keys_def)
  have "keys (set_angles angles pl) = keys pl @ map fst angles"
  proof (rule keys_set_angles)
    show "distinct (map fst angles)"
      by (simp add: house_angles_names [OF angles] distinct_angle_names)
    show "set (map fst angles) \<inter> set (keys pl) = {}"
      using a by (simp only: house_angles_names [OF angles] kpl Int_commute)
  qed
  then show ?thesis
    by (simp add: r kpl house_angles_names [OF angles])
qed

lemma length_bodies: "length bodies = 13" "length angle_names = 4"
  by (simp_all add: bodies_def angle_names_def)

lemma build_chart_succeeds:
  assumes "parse_datetime py (dict_get payload ''datetime_utc'' (VStr '''')) = Inr dt"
    and "latitude_ok py (dict_get payload ''latitude'' VNone)"
    and "longitude_ok py (dict_get payload ''longitude'' VNone)"
    and "provider_answers prov dt (the (py_float py (dict_get payload ''latitude'' VNone)))
           (the (py_float py (dict_get payload ''longitude'' VNone)))"
  shows "\<exists>r. build_chart py prov payload = Inr r"
proof -
  let ?lat = "the (py_float py (dict_get payload ''latitude'' VNone))"
  let ?lon = "the (py_float py (dict_get payload ''longitude'' VNone))"
  have lat: "check_latitude py (dict_get payload ''latitude'' VNone) = Inr ?lat"
    using assms(2) by (simp add: check_latitude_cases)
  have lon: "check_longitude py (dict_get payload ''longitude'' VNone) = Inr ?lon"
    using assms(3) by (simp add: check_longitude_cases)
  from assms(4) obtain jd where
    jd: "julday prov (year dt) (month dt) (day dt) (fractional_hour dt) = Inr jd" and
    all: "list_all (\<lambda>b. case calc_ut prov jd b of Inl e \<Rightarrow> False | Inr res \<Rightarrow> well_shaped res) bodies"
    and h: "case houses_ex prov jd ?lat ?lon ''P'' of Inl e \<Rightarrow> False
            | Inr (cusps, ascmc) \<Rightarrow> 2 \<le> length ascmc"
    by (auto simp: provider_answers_def split: sum.splits)
  from calc_bodies_succeeds [OF all] obtain pl where pl: "calc_bodies prov jd bodies [] = Inr pl" ..
  from h obtain angles where angles: "house_angles prov jd ?lat ?lon = Inr angles"
    by (auto simp: house_angles_Inr split: sum.splits)
  show ?thesis
    unfolding build_chart_Inr using assms(1) lat lon jd pl angles
    by (auto simp: compute_jd_Inr)
qed

subsection \<open>Charts of the stub provider\<close>

lemma stub_calc_bodies:
  "body_placement res = Inr p \<Longrightarrow>
   calc_bodies (stub_provider res) jd bodies [] = Inr (map (\<lambda>n. (n, p)) body_names)"
  by (simp add: stub_provider_def bodies_def body_names_def then_do_Inr)

lemma stub_house_angles:
  "house_angles (stub_provider res) jd lat lon =
     Inr [(''Ascendant'', Fin 10), (''Midheaven'', Fin 280), (''Descendant'', Fin 190),
          (''IC'', Fin 100)]"
  by (simp add: house_angles_def stub_provider_def)

lemma strftime_20240320: "strftime date_20240320 = ''2024-03-20T03:06:00Z''"
  by (simp add: strftime_def date_20240320_def zfill_def str_nat.simps digit_char_def)

lemma test_parse_direct:
  "parse_datetime test_runtime (VStr ''2024-03-20T03:06:00Z'') = Inr date_20240320"
  using test_parse_Z [of VNone VNone] by (simp add: test_payload_get)

lemma stub_build_chart:
  assumes "body_placement res = Inr p"
  shows "build_chart test_runtime (stub_provider res)
           (test_payload (VStr ''2024-03-20T03:06:00Z'') (VInt 0) (VInt 0)) =
         Inr \<lparr>res_name = VNone, res_datetime_utc = ''2024-03-20T03:06:00Z'',
              res_latitude = Fin 0, res_longitude = Fin 0, res_julian_day = Fin 2460389,
              res_placements = map (\<lambda>n. (n, p)) body_names @
                [(''Ascendant'', angle_placement (Fin 10)),
                 (''Midheaven'', angle_placement (Fin 280)),
                 (''Descendant'', angle_placement (Fin 190)),
                 (''IC'', angle_placement (Fin 100))]\<rparr>"
proof -
  have jd: "compute_jd (stub_provider res) date_20240320 = Inr (Fin 2460389)"
    by (simp add: compute_jd_def stub_provider_def)
  have name: "dict_get (test_payload (VStr ''2024-03-20T03:06:00Z'') (VInt 0) (VInt 0)) ''name'' VNone
              = VNone"
    by (simp add: dict_get_def test_payload_def)
  have lat: "check_latitude test_runtime (VInt 0) = Inr (Fin 0)"
    by (simp add: check_latitude_def)
  have lon: "check_longitude test_runtime (VInt 0) = Inr (Fin 0)"
    by (simp add: check_longitude_def)
  have angles: "set_angles [(''Ascendant'', Fin 10), (''Midheaven'', Fin 280),
                   (''Descendant'', Fin 190), (''IC'', Fin 100)] (map (\<lambda>n. (n, p)) body_names)
                = map (\<lambda>n. (n, p)) body_names @
                  [(''Ascendant'', angle_placement (Fin 10)),
                   (''Midheaven'', angle_placement (Fin 280)),
                   (''Descendant'', angle_placement (Fin 190)),
                   (''IC'', angle_placement (Fin 100))]"
    by (simp add: body_names_def)
  show ?thesis
    unfolding build_chart_def
    by (simp only: test_parse_direct test_payload_get then_do_Inr lat lon jd
        stub_calc_bodies [OF assms] stub_house_angles angles name strftime_20240320)
qed

lemma placement_direct4:
  "body_placement (direct4 s) =
     Inr \<lparr>longitude = Num (Fin 1), latitude = Num (Fin 2), distance_au = Num (Fin 3),
          speed = Num s, retrograde = flt s (Fin 0)\<rparr>"
  by (simp add: body_placement_def direct4_def unpack_def four_def seq_index_def then_do_Inr)

lemma unpack_wrapped6: "unpack wrapped6 = Inr (Num (Fin 1), Num (Fin 2), Num (Fin 3), Num (Fin 4))"
  by (simp add: wrapped6_def unpack_def four_def seq_index_def then_do_Inr)

lemma placement_wrapped6:
  "body_placement wrapped6 =
     Inr \<lparr>longitude = Num (Fin 1), latitude = Num (Fin 2), distance_au = Num (Fin 3),
          speed = Num (Fin 4), retrograde = False\<rparr>"
  by (simp add: body_placement_def unpack_wrapped6 then_do_Inr)

subsection \<open>Where the entries of a result come from\<close>

lemma result_entries:
  assumes "build_chart py prov payload = Inr r" and "(k, p) \<in> set (res_placements r)"
  shows "(\<exists>a. k \<in> set angle_names \<and> p = angle_placement a)
       \<or> (\<exists>b\<in>set bodies. \<exists>res. k = get_planet_name prov b
             \<and> calc_ut prov (res_julian_day r) b = Inr res \<and> body_placement res = Inr p)"
proof -
  from assms(1) obtain jd lat lon pl angles where
    pl: "calc_bodies prov jd bodies [] = Inr pl" and
    angles: "house_angles prov jd lat lon = Inr angles" and
    r: "res_placements r = set_angles angles pl" "res_julian_day r = jd"
    unfolding build_chart_Inr by auto
  from assms(2) r have "(k, p) \<in> set pl \<or> (\<exists>a. (k, a) \<in> set angles \<and> p = angle_placement a)"
    by (auto dest: set_angles_origin)
  then show ?thesis
  proof
    assume "(k, p) \<in> set pl"
    with calc_bodies_origin [OF pl] show ?thesis
      by (auto simp: r)
  next
    assume "\<exists>a. (k, a) \<in> set angles \<and> p = angle_placement a"
    then obtain a where a: "(k, a) \<in> set angles" "p = angle_placement a" by blast
    then have "k \<in> set (map fst angles)" by force
    then show ?thesis
      using a by (auto simp: house_angles_names [OF angles])
  qed
qed

lemma body_entry_origin:
  assumes "build_chart py prov payload = Inr r" and "(k, p) \<in> set (res_placements r)"
    and "k \<notin> set angle_names"
  shows "\<exists>b\<in>set bodies. \<exists>res. k = get_planet_name prov b
           \<and> calc_ut prov (res_julian_day r) b = Inr res \<and> body_placement res = Inr p"
  using result_entries [OF assms(1,2)] assms(3) by blast

lemma flt_fneg: "s \<noteq> Fin 0 \<Longrightarrow> s \<noteq> NaN \<Longrightarrow> flt (fneg s) (Fin 0) = (\<not> flt s (Fin 0))"
  by (cases s) auto

subsection \<open>Printing and reading digits\<close>

lemma digit_cases:
  assumes "n < 10"
  obtains "n = 0" | "n = 1" | "n = 2" | "n = 3" | "n = 4" | "n = 5" | "n = 6" | "n = 7"
    | "n = 8" | "n = (9::nat)"
  using assms by atomize_elim arith

lemma digit_val_digit_char: "n < 10 \<Longrightarrow> digit_val (digit_char n) = Some n"
  by (erule digit_cases) (simp_all add: digit_val_def digit_char_def)

lemma digit_char_not_sign:
  "n < 10 \<Longrightarrow> digit_char n \<noteq> CHR ''-'' \<and> digit_char n \<noteq> CHR ''+''"
  by (erule digit_cases) (simp_all add: digit_char_def)

lemma digit_char_0: "digit_char 0 = CHR ''0''"
  by (simp add: digit_char_def)

lemma parse_digits2:
  "a < 10 \<Longrightarrow> b < 10 \<Longrightarrow> parse_digits [digit_char a, digit_char b] = Some (a * 10 + b)"
  by (simp add: parse_digits_def digit_val_digit_char)

lemma parse_digits4:
  "a < 10 \<Longrightarrow> b < 10 \<Longrightarrow> c < 10 \<Longrightarrow> d < 10 \<Longrightarrow>
   parse_digits [digit_char a, digit_char b, digit_char c, digit_char d]
     = Some (((a * 10 + b) * 10 + c) * 10 + d)"
  by (simp add: parse_digits_def digit_val_digit_char)

lemma str_nat_small: "n < 10 \<Longrightarrow> str_nat n = [digit_char n]"
  by (simp add: str_nat.simps)

lemma str_nat_step: "10 \<le> n \<Longrightarrow> str_nat n = str_nat (n div 10) @ [digit_char (n mod 10)]"
  by (subst str_nat.simps) simp

lemma replicate_23: "replicate 2 c = [c, c]" "replicate 3 c = [c, c, c]"
  by (simp_all add: numeral_2_eq_2 numeral_3_eq_3)

lemma zfill2:
  assumes "n < 100"
  shows "zfill 2 (str_nat n) = [digit_char (n div 10), digit_char (n mod 10)]"
proof (cases "n < 10")
  case True
  then show ?thesis
    by (simp add: str_nat_small zfill_def digit_char_0)
next
  case False
  with assms have "n div 10 < 10" by simp
  with False show ?thesis
    by (simp add: str_nat_step str_nat_small zfill_def)
qed

lemma zfill4:
  assumes "n < 10000"
  shows "zfill 4 (str_nat n) =
           [digit_char (n div 1000), digit_char (n div 100 mod 10), digit_char (n div 10 mod 10),
            digit_char (n mod 10)]"
proof -
  consider "n < 10" | "10 \<le> n" "n < 100" | "100 \<le> n" "n < 1000" | "1000 \<le> n"
    by linarith
  then show ?thesis
  proof cases
    case 1
    then show ?thesis
      by (simp add: str_nat_small zfill_def digit_char_0 replicate_23)
  next
    case 2
    then have "n div 10 < 10" by simp
    with 2 show ?thesis
      by (simp add: str_nat_step str_nat_small zfill_def digit_char_0 replicate_23)
  next
    case 3
    then have a: "10 \<le> n div 10" "n div 10 div 10 < 10" "10 \<le> n"
      by simp_all
    have "str_nat n = [digit_char (n div 10 div 10), digit_char (n div 10 mod 10),
                       digit_char (n mod 10)]"
      by (simp add: str_nat_step [OF a(3)] str_nat_step [OF a(1)] str_nat_small [OF a(2)])
    moreover have "n div 1000 = 0" "n div 10 div 10 = n div 100 mod 10"
      using 3 by (simp_all add: div_mult2_eq [symmetric])
    ultimately show ?thesis
      by (simp add: zfill_def digit_char_0)
  next
    case 4
    with assms have a: "10 \<le> n" "10 \<le> n div 10" "10 \<le> n div 10 div 10"
      "n div 10 div 10 div 10 < 10"
      by simp_all
    have "str_nat n = [digit_char (n div 10 div 10 div 10), digit_char (n div 10 div 10 mod 10),
                       digit_char (n div 10 mod 10), digit_char (n mod 10)]"
      by (simp add: str_nat_step [OF a(1)] str_nat_step [OF a(2)] str_nat_step [OF a(3)]
          str_nat_small [OF a(4)])
    moreover have "n div 10 div 10 div 10 = n div 1000" "n div 10 div 10 = n div 100"
      by (simp_all add: div_mult2_eq [symmetric])
    ultimately show ?thesis
      by (simp add: zfill_def)
  qed
qed

lemma digits2_value: "n div 10 * 10 + n mod 10 = (n::nat)"
  by simp

lemma digits4_value:
  "((n div 1000 * 10 + n div 100 mod 10) * 10 + n div 10 mod 10) * 10 + n mod 10 = (n::nat)"
proof -
  have "n div 1000 = n div 10 div 10 div 10" "n div 100 = n div 10 div 10"
    by (simp_all add: div_mult2_eq [symmetric])
  then show ?thesis
    by (simp only: div_mult_mod_eq)
qed

lemma digit_char_sign_simps:
  "n < 10 \<Longrightarrow> (digit_char n = CHR ''-'') = False"
  "n < 10 \<Longrightarrow> (CHR ''-'' = digit_char n) = False"
  "n < 10 \<Longrightarrow> (digit_char n = CHR ''+'') = False"
  "n < 10 \<Longrightarrow> (CHR ''+'' = digit_char n) = False"
  using digit_char_not_sign [of n] by auto

text \<open>The ISO date and time, to the second, reads back as the date and time it was made from.\<close>

lemma isoformat_seconds_digits:
  assumes "valid_datetime dt"
  shows "isoformat_seconds dt =
     [digit_char (year dt div 1000), digit_char (year dt div 100 mod 10),
      digit_char (year dt div 10 mod 10), digit_char (year dt mod 10), CHR ''-'',
      digit_char (month dt div 10), digit_char (month dt mod 10), CHR ''-'',
      digit_char (day dt div 10), digit_char (day dt mod 10), CHR ''T'',
      digit_char (hour dt div 10), digit_char (hour dt mod 10), CHR '':'',
      digit_char (minute dt div 10), digit_char (minute dt mod 10), CHR '':'',
      digit_char (second dt div 10), digit_char (second dt mod 10)]"
proof -
  have "day dt \<le> 31"
    using assms by (auto simp: valid_datetime_def days_in_month_def split: if_splits)
  then have "year dt < 10000" "month dt < 100" "day dt < 100" "hour dt < 100" "minute dt < 100"
    "second dt < 100"
    using assms by (auto simp: valid_datetime_def)
  then show ?thesis
    by (simp add: isoformat_seconds_def zfill2 zfill4)
qed

text \<open>From year 1000 on the year has four digits, and the two ways of printing agree.\<close>

lemma str_nat_four_digits:
  assumes "1000 \<le> n" and "n < 10000"
  shows "zfill 4 (str_nat n) = str_nat n"
proof -
  from assms have a: "10 \<le> n" "10 \<le> n div 10" "10 \<le> n div 10 div 10"
    "n div 10 div 10 div 10 < 10"
    by simp_all
  have "length (str_nat n) = 4"
    by (simp add: str_nat_step [OF a(1)] str_nat_step [OF a(2)] str_nat_step [OF a(3)]
        str_nat_small [OF a(4)])
  then show ?thesis
    by (simp add: zfill_def)
qed

lemma strftime_isoformat_seconds:
  assumes "1000 \<le> year dt" and "year dt \<le> 9999"
  shows "strftime dt = isoformat_seconds dt @ ''Z''"
proof -
  have "zfill 4 (str_nat (year dt)) = str_nat (year dt)"
    using assms by (intro str_nat_four_digits) simp_all
  then show ?thesis
    by (simp add: strftime_def isoformat_seconds_def)
qed

lemma iso_roundtrip:
  assumes "valid_datetime dt"
  shows "iso_fromisoformat (isoformat_seconds dt) = Some (dt\<lparr>microsecond := 0, tzinfo := None\<rparr>)"
proof -
  define y3 y2 y1 y0 where "y3 = year dt div 1000" and "y2 = year dt div 100 mod 10"
    and "y1 = year dt div 10 mod 10" and "y0 = year dt mod 10"
  define m1 m0 d1 d0 where "m1 = month dt div 10" and "m0 = month dt mod 10"
    and "d1 = day dt div 10" and "d0 = day dt mod 10"
  define h1 h0 i1 i0 s1 s0 where "h1 = hour dt div 10" and "h0 = hour dt mod 10"
    and "i1 = minute dt div 10" and "i0 = minute dt mod 10"
    and "s1 = second dt div 10" and "s0 = second dt mod 10"
  note defs = y3_def y2_def y1_def y0_def m1_def m0_def d1_def d0_def h1_def h0_def i1_def
    i0_def s1_def s0_def
  have "day dt \<le> 31"
    using assms by (auto simp: valid_datetime_def days_in_month_def split: if_splits)
  then have b: "year dt < 10000" "month dt < 100" "day dt < 100" "hour dt < 100" "minute dt < 100"
    "second dt < 100"
    using assms by (auto simp: valid_datetime_def)
  have small: "y3 < 10" "y2 < 10" "y1 < 10" "y0 < 10" "m1 < 10" "m0 < 10" "d1 < 10" "d0 < 10"
    "h1 < 10" "h0 < 10" "i1 < 10" "i0 < 10" "s1 < 10" "s0 < 10"
    unfolding defs using b by simp_all
  have s: "isoformat_seconds dt =
     [digit_char y3, digit_char y2, digit_char y1, digit_char y0, CHR ''-'',
      digit_char m1, digit_char m0, CHR ''-'', digit_char d1, digit_char d0, CHR ''T'',
      digit_char h1, digit_char h0, CHR '':'', digit_char i1, digit_char i0, CHR '':'',
      digit_char s1, digit_char s0]"
    by (simp add: isoformat_seconds_digits [OF assms] defs)
  have y: "((y3 * 10 + y2) * 10 + y1) * 10 + y0 = year dt"
    unfolding defs by (rule digits4_value)
  have rest: "m1 * 10 + m0 = month dt" "d1 * 10 + d0 = day dt" "h1 * 10 + h0 = hour dt"
    "i1 * 10 + i0 = minute dt" "s1 * 10 + s0 = second dt"
    unfolding defs by simp_all
  have p4: "parse_digits [digit_char y3, digit_char y2, digit_char y1, digit_char y0]
            = Some (year dt)"
    by (simp only: parse_digits4 [OF small(1,2,3,4)] y)
  have p2: "parse_digits [digit_char m1, digit_char m0] = Some (month dt)"
    "parse_digits [digit_char d1, digit_char d0] = Some (day dt)"
    "parse_digits [digit_char h1, digit_char h0] = Some (hour dt)"
    "parse_digits [digit_char i1, digit_char i0] = Some (minute dt)"
    "parse_digits [digit_char s1, digit_char s0] = Some (second dt)"
    by (simp_all only: parse_digits2 small rest)
  have date: "parse_isoformat_date (take 10 (isoformat_seconds dt))
              = Some (year dt, month dt, day dt)"
    by (simp add: s parse_isoformat_date_def slice_def p4 p2)
  have hms: "parse_hh_mm_ss_ff [digit_char h1, digit_char h0, CHR '':'', digit_char i1,
               digit_char i0, CHR '':'', digit_char s1, digit_char s0]
             = Some (hour dt, minute dt, second dt, 0)"
    by (simp add: parse_hh_mm_ss_ff_def slice_def p2 parse_fraction_def)
  have tz: "tz_pos [digit_char h1, digit_char h0, CHR '':'', digit_char i1,
               digit_char i0, CHR '':'', digit_char s1, digit_char s0] = None"
    by (simp add: tz_pos_def find_char_def digit_char_sign_simps small)
  have time: "parse_isoformat_time (drop 11 (isoformat_seconds dt))
              = Some ((hour dt, minute dt, second dt, 0), None)"
    by (simp add: s parse_isoformat_time_def tz hms)
  have v: "valid_datetime \<lparr>year = year dt, month = month dt, day = day dt, hour = hour dt,
             minute = minute dt, second = second dt, microsecond = 0, tzinfo = None\<rparr>"
    using assms by (simp add: valid_datetime_def)
  have len: "length (isoformat_seconds dt) \<noteq> 10"
    by (simp add: s)
  show ?thesis
    using len by (simp add: iso_fromisoformat_def date time make_datetime_def v)
qed

lemma digit_char_not_Z: "n < 10 \<Longrightarrow> digit_char n \<noteq> CHR ''Z''"
  by (erule digit_cases) (simp_all add: digit_char_def)

lemma isoformat_seconds_no_Z:
  assumes "valid_datetime dt"
  shows "\<not> endswith_Z (isoformat_seconds dt)"
proof -
  have "second dt mod 10 < 10" by simp
  from digit_char_not_Z [OF this] show ?thesis
    by (simp add: isoformat_seconds_digits [OF assms] endswith_Z_def)
qed

lemma strftime_ends:
  assumes "valid_datetime dt" and "1000 \<le> year dt"
  shows "endswith_Z (strftime dt)" and "butlast (strftime dt) = isoformat_seconds dt"
    and "length (strftime dt) = 20"
proof -
  have "year dt \<le> 9999"
    using assms(1) by (simp add: valid_datetime_def)
  then have s: "strftime dt = isoformat_seconds dt @ ''Z''"
    using assms(2) by (intro strftime_isoformat_seconds)
  show "butlast (strftime dt) = isoformat_seconds dt"
    by (simp add: s)
  show "endswith_Z (strftime dt)" "length (strftime dt) = 20"
    by (simp_all add: s isoformat_seconds_digits [OF assms(1)] endswith_Z_def)
qed

lemma parse_datetime_VStr:
  "parse_datetime py (VStr s) =
     (case fromisoformat py (if endswith_Z s then butlast s else s) of
        Some d \<Rightarrow> Inr d
      | None \<Rightarrow> Inl (ValueError (invalid_datetime_msg s)))"
  by (simp add: Let_def)

lemma endswith_Z_append: "endswith_Z (s @ ''Z'')"
  by (simp add: endswith_Z_def)

lemma test_runtime_iso: "fromisoformat test_runtime = iso_fromisoformat"
  by (simp add: test_runtime_def)

subsection \<open>More charts of the stub provider\<close>

lemma iso_offset:
  "iso_fromisoformat ''2024-03-20T03:06:00+05:00''
     = Some (date_20240320\<lparr>tzinfo := Some 18000000000\<rparr>)"
  by (simp add: iso_defs date_20240320_def)

lemma iso_fraction:
  "iso_fromisoformat ''2024-03-20T03:06:59.999''
     = Some (date_20240320\<lparr>second := 59, microsecond := 999000\<rparr>)"
  by (simp add: iso_defs date_20240320_def)

subsection \<open>Which exceptions the later steps raise\<close>

lemma then_do_not_ValueError:
  assumes "\<not> is_ValueError m" and "\<And>x. \<not> is_ValueError (f x)"
  shows "\<not> is_ValueError (then_do m f)"
proof (cases m)
  case (Inl e)
  with assms(1) show ?thesis
    by (cases e) (simp_all add: then_do_def)
next
  case (Inr x)
  with assms(2) show ?thesis
    by (simp add: then_do_def)
qed

lemma py_index_not_ValueError: "\<not> is_ValueError (py_index obj i)"
  by (cases obj) (simp_all add: seq_index_def)

lemma four_not_ValueError: "\<not> is_ValueError (four obj i j k l)"
  unfolding four_def
  by (intro then_do_not_ValueError py_index_not_ValueError) simp

lemma unpack_not_ValueError: "\<not> is_ValueError (unpack result)"
proof (cases "is_tuple2 result")
  case True
  then show ?thesis
    unfolding unpack_def
    by (simp add: then_do_not_ValueError py_index_not_ValueError four_not_ValueError)
next
  case False
  then show ?thesis
    by (simp add: unpack_def four_not_ValueError)
qed

lemma py_lt_zero_not_ValueError: "\<not> is_ValueError (py_lt_zero v)"
  by (cases v) simp_all

lemma body_placement_not_ValueError: "\<not> is_ValueError (body_placement result)"
  unfolding body_placement_def
proof (rule then_do_not_ValueError [OF unpack_not_ValueError])
  fix x :: "pyobj \<times> pyobj \<times> pyobj \<times> pyobj"
  obtain lon_deg lat_deg dist spd where x: "x = (lon_deg, lat_deg, dist, spd)"
    by (cases x)
  show "\<not> is_ValueError
          (case x of
             (lon_deg, lat_deg, dist, spd) \<Rightarrow>
               then_do (py_lt_zero spd)
                 (\<lambda>retro. Inr \<lparr>longitude = lon_deg, latitude = lat_deg, distance_au = dist,
                                  speed = spd, retrograde = retro\<rparr>))"
    unfolding x by (simp add: then_do_not_ValueError py_lt_zero_not_ValueError)
qed

lemma calc_bodies_not_ValueError: "\<not> is_ValueError (calc_bodies prov jd bs pl)"
proof (induction bs arbitrary: pl)
  case Nil
  then show ?case by simp
next
  case (Cons code rest)
  show ?case
  proof (cases "calc_ut prov jd code")
    case (Inl e)
    then show ?thesis by simp
  next
    case (Inr res)
    then show ?thesis
      by (simp add: then_do_not_ValueError body_placement_not_ValueError Cons.IH)
  qed
qed

lemma house_angles_not_ValueError: "\<not> is_ValueError (house_angles prov jd lat lon)"
  by (auto simp: house_angles_def Let_def split: sum.splits)

lemma compute_jd_not_ValueError: "\<not> is_ValueError (compute_jd prov dt)"
  by (auto simp: compute_jd_def split: sum.splits)

lemma later_steps_not_ValueError:
  "\<not> is_ValueError
      (then_do (compute_jd prov dt) (\<lambda>jd.
       then_do (calc_bodies prov jd bodies []) (\<lambda>pl.
       then_do (house_angles prov jd lat lon) (\<lambda>angles. Inr (g jd pl angles)))))"
  by (intro then_do_not_ValueError compute_jd_not_ValueError calc_bodies_not_ValueError
      house_angles_not_ValueError) simp

lemma build_chart_not_ValueError:
  assumes "parse_datetime py (dict_get payload ''datetime_utc'' (VStr '''')) = Inr dt"
    and "latitude_ok py (dict_get payload ''latitude'' VNone)"
    and "longitude_ok py (dict_get payload ''longitude'' VNone)"
  shows "\<not> is_ValueError (build_chart py prov payload)"
  unfolding build_chart_def using assms
  by (simp add: then_do_Inr check_latitude_cases check_longitude_cases
      later_steps_not_ValueError)

lemma valid_20240320: "valid_datetime date_20240320"
  by (simp add: valid_datetime_def date_20240320_def days_in_month_def)

lemma test_parse_offset:
  "parse_datetime test_runtime (VStr ''2024-03-20T03:06:00+05:00'')
     = Inr (date_20240320\<lparr>tzinfo := Some 18000000000\<rparr>)"
  by (simp add: endswith_Z_def test_runtime_iso iso_offset)

lemma test_parse_fraction:
  "parse_datetime test_runtime (VStr ''2024-03-20T03:06:59.999Z'')
     = Inr (date_20240320\<lparr>second := 59, microsecond := 999000\<rparr>)"
  by (simp add: endswith_Z_def test_runtime_iso iso_fraction)

lemma strftime_fraction:
  "strftime (date_20240320\<lparr>second := 59, microsecond := 999000\<rparr>) = ''2024-03-20T03:06:59Z''"
  by (simp add: strftime_def date_20240320_def zfill_def str_nat.simps digit_char_def)

lemma strftime_offset:
  "strftime (date_20240320\<lparr>tzinfo := Some 18000000000\<rparr>) = ''2024-03-20T03:06:00Z''"
  using strftime_20240320 by (simp add: strftime_def)

subsection \<open>Numbers of any width\<close>

lemma digits_acc_append:
  "digits_acc acc (xs @ ys) =
     (case digits_acc acc xs of None \<Rightarrow> None | Some a \<Rightarrow> digits_acc a ys)"
  by (induction xs arbitrary: acc) (auto split: option.splits)

lemma str_nat_not_Nil: "str_nat n \<noteq> []"
  by (subst str_nat.simps) simp

lemma digits_acc_str_nat:
  "digits_acc acc (str_nat n) = Some (acc * 10 ^ length (str_nat n) + n)"
proof (induction n arbitrary: acc rule: str_nat.induct)
  case (1 n)
  show ?case
  proof (cases "n < 10")
    case True
    then show ?thesis
      by (simp add: str_nat_small digit_val_digit_char)
  next
    case False
    then have step: "str_nat n = str_nat (n div 10) @ [digit_char (n mod 10)]"
      by (simp add: str_nat_step)
    have "digits_acc acc (str_nat (n div 10))
          = Some (acc * 10 ^ length (str_nat (n div 10)) + n div 10)"
      using False by (intro "1.IH") simp
    then show ?thesis
      by (simp add: step digits_acc_append digit_val_digit_char algebra_simps)
  qed
qed

lemma digits_acc_zeros: "digits_acc 0 (replicate k CHR ''0'' @ s) = digits_acc 0 s"
  by (induction k) (simp_all add: digit_val_def)

lemma parse_digits_zfill: "parse_digits (zfill w (str_nat n)) = Some n"
  by (simp add: parse_digits_def zfill_def str_nat_not_Nil digits_acc_zeros digits_acc_str_nat)

lemma length_str_nat: "n < 10 ^ k \<Longrightarrow> 0 < k \<Longrightarrow> length (str_nat n) \<le> k"
proof (induction k arbitrary: n)
  case 0
  then show ?case by simp
next
  case (Suc k)
  show ?case
  proof (cases "n < 10")
    case True
    then show ?thesis by (simp add: str_nat_small)
  next
    case False
    with Suc.prems have "0 < k"
      by (cases k) simp_all
    moreover from Suc.prems have "n div 10 < 10 ^ k"
      by (simp add: less_mult_imp_div_less mult.commute)
    ultimately have "length (str_nat (n div 10)) \<le> k"
      by (intro Suc.IH)
    with False show ?thesis
      by (simp add: str_nat_step)
  qed
qed

lemma length_zfill: "length s \<le> w \<Longrightarrow> length (zfill w s) = w"
  by (simp add: zfill_def)

lemma set_str_nat: "set (str_nat n) \<subseteq> digit_char ` {..<10}"
proof (induction n rule: str_nat.induct)
  case (1 n)
  show ?case
  proof (cases "n < 10")
    case True
    then show ?thesis by (simp add: str_nat_small)
  next
    case False
    then have "set (str_nat (n div 10)) \<subseteq> digit_char ` {..<10}"
      by (intro "1.IH") simp
    with False show ?thesis
      by (simp add: str_nat_step)
  qed
qed

lemma set_zfill: "set (zfill w (str_nat n)) \<subseteq> digit_char ` {..<10}"
proof -
  have "CHR ''0'' \<in> digit_char ` {..<10}"
    using digit_char_0 by (metis imageI lessThan_iff zero_less_numeral)
  then show ?thesis
    using set_str_nat [of n] by (auto simp: zfill_def)
qed

lemma zfill_chars: "c \<in> set (zfill w (str_nat n)) \<Longrightarrow> \<exists>k<10. c = digit_char k"
  using set_zfill [of w n] by auto

lemma no_sign_in_zfill:
  "CHR ''-'' \<notin> set (zfill w (str_nat n))" "CHR ''+'' \<notin> set (zfill w (str_nat n))"
  using zfill_chars digit_char_not_sign by metis+

subsection \<open>Reading back a printed datetime\<close>

lemma iso_roundtrip_fraction:
  assumes v: "valid_datetime dt" and len: "length fs = 6"
    and fs: "parse_digits fs = Some us" and us: "us < 1000000"
    and ns: "CHR ''-'' \<notin> set fs" "CHR ''+'' \<notin> set fs"
  shows "iso_fromisoformat (isoformat_seconds dt @ ''.'' @ fs)
           = Some (dt\<lparr>microsecond := us, tzinfo := None\<rparr>)"
proof -
  define y3 y2 y1 y0 where "y3 = year dt div 1000" and "y2 = year dt div 100 mod 10"
    and "y1 = year dt div 10 mod 10" and "y0 = year dt mod 10"
  define m1 m0 d1 d0 where "m1 = month dt div 10" and "m0 = month dt mod 10"
    and "d1 = day dt div 10" and "d0 = day dt mod 10"
  define h1 h0 i1 i0 s1 s0 where "h1 = hour dt div 10" and "h0 = hour dt mod 10"
    and "i1 = minute dt div 10" and "i0 = minute dt mod 10"
    and "s1 = second dt div 10" and "s0 = second dt mod 10"
  note defs = y3_def y2_def y1_def y0_def m1_def m0_def d1_def d0_def h1_def h0_def i1_def
    i0_def s1_def s0_def
  have "day dt \<le> 31"
    using v by (auto simp: valid_datetime_def days_in_month_def split: if_splits)
  then have b: "year dt < 10000" "month dt < 100" "day dt < 100" "hour dt < 100" "minute dt < 100"
    "second dt < 100"
    using v by (auto simp: valid_datetime_def)
  have small: "y3 < 10" "y2 < 10" "y1 < 10" "y0 < 10" "m1 < 10" "m0 < 10" "d1 < 10" "d0 < 10"
    "h1 < 10" "h0 < 10" "i1 < 10" "i0 < 10" "s1 < 10" "s0 < 10"
    unfolding defs using b by simp_all
  have s: "isoformat_seconds dt =
     [digit_char y3, digit_char y2, digit_char y1, digit_char y0, CHR ''-'',
      digit_char m1, digit_char m0, CHR ''-'', digit_char d1, digit_char d0, CHR ''T'',
      digit_char h1, digit_char h0, CHR '':'', digit_char i1, digit_char i0, CHR '':'',
      digit_char s1, digit_char s0]"
    by (simp add: isoformat_seconds_digits [OF v] defs)
  have y: "((y3 * 10 + y2) * 10 + y1) * 10 + y0 = year dt"
    unfolding defs by (rule digits4_value)
  have rest: "m1 * 10 + m0 = month dt" "d1 * 10 + d0 = day dt" "h1 * 10 + h0 = hour dt"
    "i1 * 10 + i0 = minute dt" "s1 * 10 + s0 = second dt"
    unfolding defs by simp_all
  have p4: "parse_digits [digit_char y3, digit_char y2, digit_char y1, digit_char y0]
            = Some (year dt)"
    by (simp only: parse_digits4 [OF small(1,2,3,4)] y)
  have p2: "parse_digits [digit_char m1, digit_char m0] = Some (month dt)"
    "parse_digits [digit_char d1, digit_char d0] = Some (day dt)"
    "parse_digits [digit_char h1, digit_char h0] = Some (hour dt)"
    "parse_digits [digit_char i1, digit_char i0] = Some (minute dt)"
    "parse_digits [digit_char s1, digit_char s0] = Some (second dt)"
    by (simp_all only: parse_digits2 small rest)
  define str where "str = isoformat_seconds dt @ ''.'' @ fs"
  have date: "parse_isoformat_date (take 10 str) = Some (year dt, month dt, day dt)"
    unfolding str_def by (simp add: s parse_isoformat_date_def slice_def p4 p2)
  have pf: "parse_fraction (CHR ''.'' # fs) = Some us"
    by (simp add: parse_fraction_def len fs)
  have hms: "parse_hh_mm_ss_ff ([digit_char h1, digit_char h0, CHR '':'', digit_char i1,
               digit_char i0, CHR '':'', digit_char s1, digit_char s0] @ CHR ''.'' # fs)
             = Some (hour dt, minute dt, second dt, us)"
    by (simp add: parse_hh_mm_ss_ff_def slice_def p2 pf len)
  have tz: "tz_pos ([digit_char h1, digit_char h0, CHR '':'', digit_char i1,
               digit_char i0, CHR '':'', digit_char s1, digit_char s0] @ CHR ''.'' # fs) = None"
    by (simp add: tz_pos_def find_char_def digit_char_sign_simps small ns)
  have time: "parse_isoformat_time (drop 11 str)
              = Some ((hour dt, minute dt, second dt, us), None)"
    unfolding str_def using tz hms by (simp add: s parse_isoformat_time_def)
  have valid: "valid_datetime \<lparr>year = year dt, month = month dt, day = day dt, hour = hour dt,
             minute = minute dt, second = second dt, microsecond = us, tzinfo = None\<rparr>"
    using v us by (simp add: valid_datetime_def)
  have n10: "length str \<noteq> 10"
    unfolding str_def by (simp add: s)
  have "iso_fromisoformat str = Some (dt\<lparr>microsecond := us, tzinfo := None\<rparr>)"
    by (simp add: iso_fromisoformat_def date time n10 make_datetime_def valid)
  then show ?thesis
    unfolding str_def .
qed

lemma iso_isoformat:
  assumes "valid_datetime dt"
  shows "iso_fromisoformat (isoformat dt) = Some (dt\<lparr>tzinfo := None\<rparr>)"
proof (cases "microsecond dt = 0")
  case True
  then have "dt\<lparr>microsecond := 0, tzinfo := None\<rparr> = dt\<lparr>tzinfo := None\<rparr>"
    by simp
  with True iso_roundtrip [OF assms] show ?thesis
    by (simp add: isoformat_def)
next
  case False
  have us: "microsecond dt < 1000000"
    using assms by (simp add: valid_datetime_def)
  then have "microsecond dt < 10 ^ 6" by simp
  then have "length (str_nat (microsecond dt)) \<le> 6"
    by (rule length_str_nat) simp
  then have len: "length (zfill 6 (str_nat (microsecond dt))) = 6"
    by (rule length_zfill)
  have "iso_fromisoformat (isoformat_seconds dt @ ''.'' @ zfill 6 (str_nat (microsecond dt)))
        = Some (dt\<lparr>microsecond := microsecond dt, tzinfo := None\<rparr>)"
    using assms len parse_digits_zfill us no_sign_in_zfill
    by (rule iso_roundtrip_fraction)
  with False show ?thesis
    by (simp add: isoformat_def)
qed

lemma isoformat_no_Z:
  assumes "valid_datetime dt"
  shows "\<not> endswith_Z (isoformat dt)"
proof (cases "microsecond dt = 0")
  case True
  with isoformat_seconds_no_Z [OF assms] show ?thesis
    by (simp add: isoformat_def)
next
  case False
  have "str_nat (microsecond dt) \<noteq> []"
    by (rule str_nat_not_Nil)
  then have ne: "zfill 6 (str_nat (microsecond dt)) \<noteq> []"
    by (simp add: zfill_def)
  then have "last (zfill 6 (str_nat (microsecond dt))) \<in> set (zfill 6 (str_nat (microsecond dt)))"
    by (rule last_in_set)
  then obtain n where "n < 10" "last (zfill 6 (str_nat (microsecond dt))) = digit_char n"
    using zfill_chars by blast
  then have "last (zfill 6 (str_nat (microsecond dt))) \<noteq> CHR ''Z''"
    using digit_char_not_Z by simp
  with False ne show ?thesis
    by (simp add: isoformat_def endswith_Z_def)
qed

lemma parse_isoformat:
  assumes "valid_datetime dt"
  shows "parse_datetime test_runtime (VStr (isoformat dt)) = Inr (dt\<lparr>tzinfo := None\<rparr>)"
    and "parse_datetime test_runtime (VStr (isoformat dt @ ''Z'')) = Inr (dt\<lparr>tzinfo := None\<rparr>)"
  using isoformat_no_Z [OF assms] iso_isoformat [OF assms]
  by (simp_all add: parse_datetime_VStr test_runtime_iso endswith_Z_append)

lemma isoformat_20240320: "isoformat date_20240320 = ''2024-03-20T03:06:00''"
  by (simp add: isoformat_def isoformat_seconds_def date_20240320_def zfill_def str_nat.simps
      digit_char_def)

lemma isoformat_fraction:
  "isoformat (date_20240320\<lparr>second := 59, microsecond := 999000\<rparr>)
     = ''2024-03-20T03:06:59.999000''"
  by (simp add: isoformat_def isoformat_seconds_def date_20240320_def zfill_def str_nat.simps
      digit_char_def)

subsection \<open>Charts with the library's names\<close>

lemma swe_names:
  "map (get_planet_name (swe_provider res)) bodies =
     [''Sun'', ''Moon'', ''Mercury'', ''Venus'', ''Mars'', ''Jupiter'', ''Saturn'', ''Uranus'',
      ''Neptune'', ''Pluto'', ''Chiron'', ''mean Node'', ''mean Apogee'']"
  by (simp add: swe_provider_def bodies_def)

lemma swe_answers: "well_shaped res \<Longrightarrow> provider_answers (swe_provider res) dt lat lon"
  by (simp add: provider_answers_def swe_provider_def stub_provider_def bodies_def)

lemma swe_chart_keys:
  assumes "well_shaped res"
  shows "\<exists>r. build_chart test_runtime (swe_provider res)
                (test_payload (VStr ''2024-03-20T03:06:00Z'') (VInt 0) (VInt 0)) = Inr r
             \<and> keys (res_placements r) =
                 [''Sun'', ''Moon'', ''Mercury'', ''Venus'', ''Mars'', ''Jupiter'', ''Saturn'',
                  ''Uranus'', ''Neptune'', ''Pluto'', ''Chiron'', ''mean Node'', ''mean Apogee'',
                  ''Ascendant'', ''Midheaven'', ''Descendant'', ''IC'']"
proof -
  let ?P = "test_payload (VStr ''2024-03-20T03:06:00Z'') (VInt 0) (VInt 0)"
  have "\<exists>r. build_chart test_runtime (swe_provider res) ?P = Inr r"
    using test_parse_Z
  proof (rule build_chart_succeeds)
    show "latitude_ok test_runtime (dict_get ?P ''latitude'' VNone)"
      "longitude_ok test_runtime (dict_get ?P ''longitude'' VNone)"
      by (simp_all add: test_payload_get zero_ok)
    show "provider_answers (swe_provider res) date_20240320
            (the (py_float test_runtime (dict_get ?P ''latitude'' VNone)))
            (the (py_float test_runtime (dict_get ?P ''longitude'' VNone)))"
      using assms by (rule swe_answers)
  qed
  then obtain r where r: "build_chart test_runtime (swe_provider res) ?P = Inr r" ..
  have "keys (res_placements r) = map (get_planet_name (swe_provider res)) bodies @ angle_names"
    using _ _ r by (rule build_chart_keys) (simp_all add: swe_names angle_names_def)
  then show ?thesis
    using r by (simp add: swe_names angle_names_def)
qed

subsection \<open>Charts of the clock provider\<close>

lemma clock_build_chart:
  assumes "parse_datetime test_runtime d = Inr dt"
  shows "build_chart test_runtime clock_provider (test_payload d (VInt 0) (VInt 0)) =
         Inr \<lparr>res_name = VNone, res_datetime_utc = strftime dt,
              res_latitude = Fin 0, res_longitude = Fin 0,
              res_julian_day =
                fadd (Fin (real (year dt * 10000 + month dt * 100 + day dt)))
                  (fractional_hour dt),
              res_placements =
                set_angles [(''Ascendant'', Fin 10), (''Midheaven'', Fin 280),
                    (''Descendant'', Fin 190), (''IC'', Fin 100)]
                  (map (\<lambda>n. (n, \<lparr>longitude = Num (Fin 1), latitude = Num (Fin 2),
                                  distance_au = Num (Fin 3), speed = Num (Fin 4),
                                  retrograde = False\<rparr>)) body_names)\<rparr>"
proof -
  let ?p = "\<lparr>longitude = Num (Fin 1), latitude = Num (Fin 2), distance_au = Num (Fin 3),
             speed = Num (Fin 4), retrograde = False\<rparr>"
  have jd: "compute_jd clock_provider dt =
              Inr (fadd (Fin (real (year dt * 10000 + month dt * 100 + day dt)))
                     (fractional_hour dt))"
    by (simp add: compute_jd_def clock_provider_def)
  have name: "dict_get (test_payload d (VInt 0) (VInt 0)) ''name'' VNone = VNone"
    by (simp add: dict_get_def test_payload_def)
  have lat: "check_latitude test_runtime (VInt 0) = Inr (Fin 0)"
    by (simp add: check_latitude_def)
  have lon: "check_longitude test_runtime (VInt 0) = Inr (Fin 0)"
    by (simp add: check_longitude_def)
  have p: "body_placement (Tup [Num (Fin 1), Num (Fin 2), Num (Fin 3), Num (Fin 4)]) = Inr ?p"
    using placement_direct4 [of "Fin 4"] by (simp add: direct4_def)
  have bodies: "calc_bodies clock_provider jd bodies [] = Inr (map (\<lambda>n. (n, ?p)) body_names)"
    for jd
    by (simp add: clock_provider_def stub_provider_def bodies_def body_names_def then_do_Inr p)
  have angles: "house_angles clock_provider jd lat lon =
       Inr [(''Ascendant'', Fin 10), (''Midheaven'', Fin 280), (''Descendant'', Fin 190),
            (''IC'', Fin 100)]" for jd lat lon
    by (simp add: house_angles_def clock_provider_def stub_provider_def)
  show ?thesis
    unfolding build_chart_def
    by (simp only: assms test_payload_get then_do_Inr lat lon jd bodies angles name)
qed

lemma clock_jd_20240320:
  "fadd (Fin (real (year date_20240320 * 10000 + month date_20240320 * 100
            + day date_20240320))) (fractional_hour date_20240320)
     = Fin (20240320 + 31 / 10)"
  by (simp add: date_20240320_def fractional_hour_def)

subsection \<open>A year below 1000\<close>

lemma iso_09990102: "iso_fromisoformat ''0999-01-02T03:04:05'' = Some date_09990102"
  by (simp add: iso_defs date_09990102_def)

lemma test_parse_0999:
  "parse_datetime test_runtime (VStr ''0999-01-02T03:04:05Z'') = Inr date_09990102"
  by (simp add: endswith_Z_def test_runtime_iso iso_09990102)

lemma strftime_09990102: "strftime date_09990102 = ''999-01-02T03:04:05Z''"
  by (simp add: strftime_def date_09990102_def zfill_def str_nat.simps digit_char_def)

lemma iso_three_digit_year: "iso_fromisoformat ''999-01-02T03:04:05'' = None"
  by (simp add: iso_defs)

section \<open>The claims\<close>

text \<open>
  C1, as stated, does not hold: the thirteen body keys are the names the provider gives
  (\<open>swe.get_planet_name\<close>), which the source does not fix.  With the names of the Swiss
  Ephemeris library the twelfth and thirteenth keys are \<open>mean Node\<close> and \<open>mean Apogee\<close>,
  not \<open>Mean Node\<close> and \<open>Lilith(mean apogee)\<close>.
\<close>

theorem C1_counterexample:
  "map_sum id (keys \<circ> res_placements)
     (build_chart test_runtime (swe_provider wrapped6)
        (test_payload (VStr ''2024-03-20T03:06:00Z'') (VInt 0) (VInt 0)))
   = Inr [''Sun'', ''Moon'', ''Mercury'', ''Venus'', ''Mars'', ''Jupiter'', ''Saturn'',
          ''Uranus'', ''Neptune'', ''Pluto'', ''Chiron'', ''mean Node'', ''mean Apogee'',
          ''Ascendant'', ''Midheaven'', ''Descendant'', ''IC'']"
proof -
  from swe_chart_keys [OF well_shaped_wrapped6] obtain r where
    "build_chart test_runtime (swe_provider wrapped6)
       (test_payload (VStr ''2024-03-20T03:06:00Z'') (VInt 0) (VInt 0)) = Inr r"
    "keys (res_placements r) =
       [''Sun'', ''Moon'', ''Mercury'', ''Venus'', ''Mars'', ''Jupiter'', ''Saturn'',
        ''Uranus'', ''Neptune'', ''Pluto'', ''Chiron'', ''mean Node'', ''mean Apogee'',
        ''Ascendant'', ''Midheaven'', ''Descendant'', ''IC'']"
    by blast
  then show ?thesis
    by simp
qed

text \<open>
  C1, amended: the keys of every result of \<open>build_chart\<close> are distinct, and they are the
  names the provider gives the thirteen bodies together with \<open>Ascendant\<close>, \<open>Midheaven\<close>,
  \<open>Descendant\<close> and \<open>IC\<close>.  When the provider's thirteen names are distinct and none of
  them is the name of an angle, the keys are these names in the order of the body list,
  followed by the four angles: seventeen keys.  For a parseable \<open>datetime_utc\<close>, a latitude
  in [-90, 90] and a longitude in [-180, 180], \<open>build_chart\<close> returns a result whenever the
  provider answers.
\<close>

theorem C1_placement_keys:
  "(\<forall>r. build_chart py prov payload = Inr r \<longrightarrow>
      distinct (keys (res_placements r))
      \<and> set (keys (res_placements r))
          = set (map (get_planet_name prov) bodies) \<union> set angle_names
      \<and> (distinct (map (get_planet_name prov) bodies)
           \<and> set (map (get_planet_name prov) bodies) \<inter> set angle_names = {}
         \<longrightarrow> keys (res_placements r) = map (get_planet_name prov) bodies @ angle_names
             \<and> length (res_placements r) = 17))
   \<and> (\<forall>dt. parse_datetime py (dict_get payload ''datetime_utc'' (VStr '''')) = Inr dt
           \<and> latitude_ok py (dict_get payload ''latitude'' VNone)
           \<and> longitude_ok py (dict_get payload ''longitude'' VNone)
           \<and> provider_answers prov dt
                (the (py_float py (dict_get payload ''latitude'' VNone)))
                (the (py_float py (dict_get payload ''longitude'' VNone)))
         \<longrightarrow> (\<exists>r. build_chart py prov payload = Inr r))"
proof (intro conjI allI impI)
  fix r
  assume ok: "build_chart py prov payload = Inr r"
  show "distinct (keys (res_placements r))"
    using ok by (rule build_chart_key_set(1))
  show "set (keys (res_placements r))
          = set (map (get_planet_name prov) bodies) \<union> set angle_names"
    using ok by (rule build_chart_key_set(2))
  assume names: "distinct (map (get_planet_name prov) bodies)
                 \<and> set (map (get_planet_name prov) bodies) \<inter> set angle_names = {}"
  then show k: "keys (res_placements r) = map (get_planet_name prov) bodies @ angle_names"
    using ok by (intro build_chart_keys) simp_all
  have "length (keys (res_placements r)) = 17"
    by (simp only: k length_append length_map length_bodies)
  then show "length (res_placements r) = 17"
    by (simp add: keys_def)
next
  fix dt
  assume "parse_datetime py (dict_get payload ''datetime_utc'' (VStr '''')) = Inr dt
          \<and> latitude_ok py (dict_get payload ''latitude'' VNone)
          \<and> longitude_ok py (dict_get payload ''longitude'' VNone)
          \<and> provider_answers prov dt
               (the (py_float py (dict_get payload ''latitude'' VNone)))
               (the (py_float py (dict_get payload ''longitude'' VNone)))"
  then show "\<exists>r. build_chart py prov payload = Inr r"
    by (blast intro: build_chart_succeeds)
qed

theorem C1_placement_keys_witness:
  "\<exists>r. build_chart test_runtime (stub_provider wrapped6)
          (test_payload (VStr ''2024-03-20T03:06:00Z'') (VInt 0) (VInt 0)) = Inr r
       \<and> keys (res_placements r) =
           [''Sun'', ''Moon'', ''Mercury'', ''Venus'', ''Mars'', ''Jupiter'', ''Saturn'',
            ''Uranus'', ''Neptune'', ''Pluto'', ''Chiron'', ''Mean Node'',
            ''Lilith(mean apogee)'', ''Ascendant'', ''Midheaven'', ''Descendant'', ''IC'']
       \<and> length (res_placements r) = 17"
proof -
  let ?P = "test_payload (VStr ''2024-03-20T03:06:00Z'') (VInt 0) (VInt 0)"
  note c1 = C1_placement_keys [of test_runtime "stub_provider wrapped6" ?P]
  have "\<exists>r. build_chart test_runtime (stub_provider wrapped6) ?P = Inr r"
    using c1 test_parse_Z zero_ok stub_answers [OF well_shaped_wrapped6]
    by (simp add: test_payload_get)
  then obtain r where r: "build_chart test_runtime (stub_provider wrapped6) ?P = Inr r" ..
  have "distinct (map (get_planet_name (stub_provider wrapped6)) bodies)
        \<and> set (map (get_planet_name (stub_provider wrapped6)) bodies) \<inter> set angle_names = {}"
    using distinct_body_names body_names_not_angles by (simp add: stub_names)
  with c1 r have "keys (res_placements r)
        = map (get_planet_name (stub_provider wrapped6)) bodies @ angle_names
      \<and> length (res_placements r) = 17"
    by blast
  with r show ?thesis
    by (auto simp: stub_names body_names_def angle_names_def)
qed

text \<open>
  C2, as stated, fails: from the pair of a six-tuple and a flag, \<open>build_chart\<close> reads the
  first four values of the six-tuple, not its last four.
\<close>

theorem C2_counterexample:
  "unpack (Tup [Tup [Num (Fin 1), Num (Fin 2), Num (Fin 3), Num (Fin 4), Num (Fin 5), Num (Fin 6)],
                Num (Fin 0)])
     = Inr (Num (Fin 1), Num (Fin 2), Num (Fin 3), Num (Fin 4))
   \<and> unpack (Tup [Tup [Num (Fin 1), Num (Fin 2), Num (Fin 3), Num (Fin 4), Num (Fin 5), Num (Fin 6)],
                  Num (Fin 0)])
     \<noteq> Inr (Num (Fin 3), Num (Fin 4), Num (Fin 5), Num (Fin 6))
   \<and> map_sum id (\<lambda>r. map_option speed (map_of (res_placements r) ''Sun''))
        (build_chart test_runtime (stub_provider wrapped6)
           (test_payload (VStr ''2024-03-20T03:06:00Z'') (VInt 0) (VInt 0)))
     = Inr (Some (Num (Fin 4)))"
proof -
  have "unpack (Tup [Tup [Num (Fin 1), Num (Fin 2), Num (Fin 3), Num (Fin 4), Num (Fin 5), Num (Fin 6)],
                Num (Fin 0)])
     = Inr (Num (Fin 1), Num (Fin 2), Num (Fin 3), Num (Fin 4))"
    using unpack_wrapped6 by (simp add: wrapped6_def)
  then show ?thesis
    by (simp add: stub_build_chart [OF placement_wrapped6] body_names_def)
qed

text \<open>
  C2, amended: a result that is not a tuple of two elements and holds at least four values
  gives its last four values, in order, as (longitude, latitude, distance, speed); a tuple
  \<open>(data, flag)\<close> gives the first four values of \<open>data\<close>, which are its last four when
  \<open>data\<close> holds exactly four; and these four values are what a result stores for the body.
\<close>

theorem C2_unpack:
  "(seq_items result = Some xs \<and> 4 \<le> length xs \<and> \<not> is_tuple2 result \<longrightarrow>
      unpack result = Inr (xs ! (length xs - 4), xs ! (length xs - 3), xs ! (length xs - 2),
                           xs ! (length xs - 1)))
   \<and> (seq_items data = Some ys \<and> 4 \<le> length ys \<longrightarrow>
        unpack (Tup [data, flag]) = Inr (ys ! 0, ys ! 1, ys ! 2, ys ! 3))
   \<and> (seq_items data = Some ys \<and> length ys = 4 \<longrightarrow>
        unpack (Tup [data, flag]) = Inr (ys ! (length ys - 4), ys ! (length ys - 3),
                                         ys ! (length ys - 2), ys ! (length ys - 1)))
   \<and> (build_chart py prov payload = Inr r \<and> (k, p) \<in> set (res_placements r)
        \<and> k \<notin> set angle_names \<longrightarrow>
        (\<exists>b\<in>set bodies. \<exists>res. k = get_planet_name prov b
           \<and> calc_ut prov (res_julian_day r) b = Inr res
           \<and> unpack res = Inr (longitude p, latitude p, distance_au p, speed p)))"
proof (intro conjI impI)
  assume "seq_items result = Some xs \<and> 4 \<le> length xs \<and> \<not> is_tuple2 result"
  then show "unpack result = Inr (xs ! (length xs - 4), xs ! (length xs - 3),
                                  xs ! (length xs - 2), xs ! (length xs - 1))"
    by (simp add: unpack_direct)
next
  assume "seq_items data = Some ys \<and> 4 \<le> length ys"
  then show "unpack (Tup [data, flag]) = Inr (ys ! 0, ys ! 1, ys ! 2, ys ! 3)"
    by (simp add: unpack_wrapped)
next
  assume "seq_items data = Some ys \<and> length ys = 4"
  then show "unpack (Tup [data, flag]) = Inr (ys ! (length ys - 4), ys ! (length ys - 3),
                                              ys ! (length ys - 2), ys ! (length ys - 1))"
    by (simp add: unpack_wrapped)
next
  assume a: "build_chart py prov payload = Inr r \<and> (k, p) \<in> set (res_placements r)
             \<and> k \<notin> set angle_names"
  then obtain b res where "b \<in> set bodies" "k = get_planet_name prov b"
    "calc_ut prov (res_julian_day r) b = Inr res" "body_placement res = Inr p"
    using body_entry_origin [of py prov payload r k p] by blast
  then show "\<exists>b\<in>set bodies. \<exists>res. k = get_planet_name prov b
           \<and> calc_ut prov (res_julian_day r) b = Inr res
           \<and> unpack res = Inr (longitude p, latitude p, distance_au p, speed p)"
    using body_placement_Inr by blast
qed

theorem C2_unpack_witness:
  "unpack (Tup [Num (Fin 9), Num (Fin 1), Num (Fin 2), Num (Fin 3), Num (Fin 4)])
     = Inr (Num (Fin 1), Num (Fin 2), Num (Fin 3), Num (Fin 4))
   \<and> unpack (Tup [Lst [Num (Fin 1), Num (Fin 2), Num (Fin 3), Num (Fin 4), Num (Fin 5)], Num (Fin 0)])
     = Inr (Num (Fin 1), Num (Fin 2), Num (Fin 3), Num (Fin 4))
   \<and> unpack (Tup [Tup [Num (Fin 1), Num (Fin 2), Num (Fin 3), Num (Fin 4)], Num (Fin 0)])
     = Inr (Num (Fin 1), Num (Fin 2), Num (Fin 3), Num (Fin 4))
   \<and> (\<exists>r p. build_chart test_runtime (stub_provider wrapped6)
               (test_payload (VStr ''2024-03-20T03:06:00Z'') (VInt 0) (VInt 0)) = Inr r
        \<and> (''Mars'', p) \<in> set (res_placements r)
        \<and> unpack wrapped6 = Inr (longitude p, latitude p, distance_au p, speed p))"
proof -
  let ?P = "test_payload (VStr ''2024-03-20T03:06:00Z'') (VInt 0) (VInt 0)"
  let ?p = "\<lparr>longitude = Num (Fin 1), latitude = Num (Fin 2), distance_au = Num (Fin 3),
             speed = Num (Fin 4), retrograde = False\<rparr>"
  let ?r = "projr (build_chart test_runtime (stub_provider wrapped6) ?P)"
  note chart = stub_build_chart [OF placement_wrapped6]
  have 1: "unpack (Tup [Num (Fin 9), Num (Fin 1), Num (Fin 2), Num (Fin 3), Num (Fin 4)])
     = Inr (Num (Fin 1), Num (Fin 2), Num (Fin 3), Num (Fin 4))"
    using C2_unpack [of "Tup [Num (Fin 9), Num (Fin 1), Num (Fin 2), Num (Fin 3), Num (Fin 4)]"
        "[Num (Fin 9), Num (Fin 1), Num (Fin 2), Num (Fin 3), Num (Fin 4)]"]
    by simp
  have 2: "unpack (Tup [Lst [Num (Fin 1), Num (Fin 2), Num (Fin 3), Num (Fin 4), Num (Fin 5)], Num (Fin 0)])
     = Inr (Num (Fin 1), Num (Fin 2), Num (Fin 3), Num (Fin 4))"
    using C2_unpack [of _ _ "Lst [Num (Fin 1), Num (Fin 2), Num (Fin 3), Num (Fin 4), Num (Fin 5)]"
        "[Num (Fin 1), Num (Fin 2), Num (Fin 3), Num (Fin 4), Num (Fin 5)]" "Num (Fin 0)"]
    by simp
  have 3: "unpack (Tup [Tup [Num (Fin 1), Num (Fin 2), Num (Fin 3), Num (Fin 4)], Num (Fin 0)])
     = Inr (Num (Fin 1), Num (Fin 2), Num (Fin 3), Num (Fin 4))"
    using C2_unpack [of _ _ "Tup [Num (Fin 1), Num (Fin 2), Num (Fin 3), Num (Fin 4)]"
        "[Num (Fin 1), Num (Fin 2), Num (Fin 3), Num (Fin 4)]" "Num (Fin 0)"]
    by simp
  have mem: "(''Mars'', ?p) \<in> set (res_placements (projr (build_chart test_runtime (stub_provider wrapped6) ?P)))"
    by (simp add: chart body_names_def)
  have nm: "''Mars'' \<notin> set angle_names"
    by (simp add: angle_names_def)
  have "build_chart test_runtime (stub_provider wrapped6) ?P = Inr ?r
           \<and> (''Mars'', ?p) \<in> set (res_placements ?r) \<and> ''Mars'' \<notin> set angle_names \<longrightarrow>
        (\<exists>b\<in>set bodies. \<exists>res. ''Mars'' = get_planet_name (stub_provider wrapped6) b
           \<and> calc_ut (stub_provider wrapped6) (res_julian_day ?r) b = Inr res
           \<and> unpack res = Inr (longitude ?p, latitude ?p, distance_au ?p, speed ?p))"
    using C2_unpack [of "Num NaN" "[]" "Num NaN" "[]" "Num NaN" test_runtime
        "stub_provider wrapped6" ?P ?r "''Mars''" ?p]
    by blast
  with mem nm obtain b res where "calc_ut (stub_provider wrapped6) (res_julian_day ?r) b = Inr res"
    "unpack res = Inr (longitude ?p, latitude ?p, distance_au ?p, speed ?p)"
    by (auto simp: chart)
  then have 4: "unpack wrapped6 = Inr (longitude ?p, latitude ?p, distance_au ?p, speed ?p)"
    by (simp add: stub_provider_def)
  have "build_chart test_runtime (stub_provider wrapped6) ?P
        = Inr (projr (build_chart test_runtime (stub_provider wrapped6) ?P))"
    by (simp add: chart)
  with mem 4 have "\<exists>r p. build_chart test_runtime (stub_provider wrapped6) ?P = Inr r
        \<and> (''Mars'', p) \<in> set (res_placements r)
        \<and> unpack wrapped6 = Inr (longitude p, latitude p, distance_au p, speed p)"
    by blast
  with 1 2 3 show ?thesis by blast
qed

text \<open>
  C3, as stated, fails: a speed of zero is not retrograde, and neither is the same speed with
  its sign flipped.
\<close>

theorem C3_counterexample:
  "map_sum id (\<lambda>r. map_option retrograde (map_of (res_placements r) ''Sun''))
     (build_chart test_runtime (stub_provider (direct4 (Fin 0)))
        (test_payload (VStr ''2024-03-20T03:06:00Z'') (VInt 0) (VInt 0)))
     = Inr (Some False)
   \<and> map_sum id (\<lambda>r. map_option retrograde (map_of (res_placements r) ''Sun''))
       (build_chart test_runtime (stub_provider (direct4 (fneg (Fin 0))))
          (test_payload (VStr ''2024-03-20T03:06:00Z'') (VInt 0) (VInt 0)))
     = Inr (Some False)"
  by (simp add: stub_build_chart [OF placement_direct4] body_names_def)

text \<open>
  C3, amended: in every result, the retrograde field of every placement is \<open>speed < 0\<close>
  computed from the speed stored beside it, which for a body is the speed read from the
  provider's answer for that body; two answers with opposite speeds, neither zero nor NaN,
  give opposite retrograde fields.
\<close>

theorem C3_retrograde:
  assumes "build_chart py prov payload = Inr r" and "(k, p) \<in> set (res_placements r)"
  shows "py_lt_zero (speed p) = Inr (retrograde p)
       \<and> (k \<notin> set angle_names \<longrightarrow>
            (\<exists>b\<in>set bodies. \<exists>res lon lat dist. k = get_planet_name prov b
               \<and> calc_ut prov (res_julian_day r) b = Inr res
               \<and> unpack res = Inr (lon, lat, dist, speed p)))
       \<and> (\<forall>res res' q q' s. body_placement res = Inr q \<and> body_placement res' = Inr q'
              \<and> speed q = Num s \<and> speed q' = Num (fneg s) \<and> s \<noteq> Fin 0 \<and> s \<noteq> NaN
            \<longrightarrow> retrograde q' = (\<not> retrograde q))"
proof (intro conjI impI allI)
  from result_entries [OF assms] show "py_lt_zero (speed p) = Inr (retrograde p)"
    using angle_placement_lt_zero body_placement_Inr by blast
next
  assume "k \<notin> set angle_names"
  from body_entry_origin [OF assms this] obtain b res where
    "b \<in> set bodies" "k = get_planet_name prov b"
    "calc_ut prov (res_julian_day r) b = Inr res" "body_placement res = Inr p"
    by blast
  then show "\<exists>b\<in>set bodies. \<exists>res lon lat dist. k = get_planet_name prov b
               \<and> calc_ut prov (res_julian_day r) b = Inr res
               \<and> unpack res = Inr (lon, lat, dist, speed p)"
    using body_placement_Inr by blast
next
  fix res res' q q' s
  assume a: "body_placement res = Inr q \<and> body_placement res' = Inr q'
              \<and> speed q = Num s \<and> speed q' = Num (fneg s) \<and> s \<noteq> Fin 0 \<and> s \<noteq> NaN"
  then have "py_lt_zero (Num s) = Inr (retrograde q)"
    "py_lt_zero (Num (fneg s)) = Inr (retrograde q')"
    using body_placement_Inr by metis+
  then show "retrograde q' = (\<not> retrograde q)"
    using a flt_fneg [of s] by simp
qed

theorem C3_retrograde_witness:
  "\<exists>r p. build_chart test_runtime (stub_provider (direct4 (Fin (- 4))))
            (test_payload (VStr ''2024-03-20T03:06:00Z'') (VInt 0) (VInt 0)) = Inr r
         \<and> (''Venus'', p) \<in> set (res_placements r)
         \<and> speed p = Num (Fin (- 4))
         \<and> py_lt_zero (speed p) = Inr (retrograde p) \<and> retrograde p
         \<and> retrograde (projr (body_placement (direct4 (fneg (Fin (- 4)))))) = (\<not> retrograde p)"
proof -
  let ?P = "test_payload (VStr ''2024-03-20T03:06:00Z'') (VInt 0) (VInt 0)"
  let ?p = "\<lparr>longitude = Num (Fin 1), latitude = Num (Fin 2), distance_au = Num (Fin 3),
             speed = Num (Fin (- 4)), retrograde = flt (Fin (- 4)) (Fin 0)\<rparr>"
  let ?q = "\<lparr>longitude = Num (Fin 1), latitude = Num (Fin 2), distance_au = Num (Fin 3),
             speed = Num (fneg (Fin (- 4))), retrograde = flt (fneg (Fin (- 4))) (Fin 0)\<rparr>"
  let ?r = "projr (build_chart test_runtime (stub_provider (direct4 (Fin (- 4)))) ?P)"
  note chart = stub_build_chart [OF placement_direct4, of "Fin (- 4)"]
  have ok: "build_chart test_runtime (stub_provider (direct4 (Fin (- 4)))) ?P = Inr ?r"
    by (simp add: chart)
  have mem: "(''Venus'', ?p) \<in> set (res_placements ?r)"
    by (simp add: chart body_names_def)
  note c3 = C3_retrograde [OF ok mem]
  have "py_lt_zero (speed ?p) = Inr (retrograde ?p)"
    using c3 by blast
  moreover have "retrograde ?q = (\<not> retrograde ?p)"
    using c3 placement_direct4 [of "Fin (- 4)"] placement_direct4 [of "fneg (Fin (- 4))"]
    by (elim conjE allE [of _ "direct4 (Fin (- 4))"] allE [of _ "direct4 (fneg (Fin (- 4)))"]
              allE [of _ ?p] allE [of _ ?q] allE [of _ "Fin (- 4)"]) simp
  moreover have "projr (body_placement (direct4 (fneg (Fin (- 4))))) = ?q"
    by (simp add: placement_direct4)
  ultimately show ?thesis
    using ok mem by (intro exI [of _ ?r] exI [of _ ?p]) simp
qed

lemma result_angles:
  assumes "build_chart py prov payload = Inr r"
  shows "\<exists>cusps ascmc.
           houses_ex prov (res_julian_day r) (res_latitude r) (res_longitude r) ''P''
             = Inr (cusps, ascmc)
           \<and> 2 \<le> length ascmc
           \<and> map_of (res_placements r) ''Ascendant'' = Some (angle_placement (ascmc ! 0))
           \<and> map_of (res_placements r) ''Midheaven'' = Some (angle_placement (ascmc ! 1))
           \<and> map_of (res_placements r) ''Descendant''
               = Some (angle_placement (pymod (fadd (ascmc ! 0) (Fin 180)) 360))
           \<and> map_of (res_placements r) ''IC''
               = Some (angle_placement (pymod (fadd (ascmc ! 1) (Fin 180)) 360))"
proof -
  from assms obtain jd lat lon pl angles where
    angles: "house_angles prov jd lat lon = Inr angles" and
    r: "res_placements r = set_angles angles pl" "res_julian_day r = jd"
       "res_latitude r = lat" "res_longitude r = lon"
    unfolding build_chart_Inr by auto
  from angles obtain cusps ascmc where
    h: "houses_ex prov jd lat lon ''P'' = Inr (cusps, ascmc)" "2 \<le> length ascmc" and
    a: "angles = [(''Ascendant'', ascmc ! 0), (''Midheaven'', ascmc ! 1),
                  (''Descendant'', pymod (fadd (ascmc ! 0) (Fin 180)) 360),
                  (''IC'', pymod (fadd (ascmc ! 1) (Fin 180)) 360)]"
    unfolding house_angles_Inr by blast
  have d: "distinct (map fst angles)"
    by (simp add: a)
  show ?thesis
    using h by (simp add: r map_of_set_angles [OF d]) (simp add: a)
qed

text \<open>
  C4: in every result, with \<open>ascmc\<close> what the provider's house computation returned for
  the result's Julian Day, latitude and longitude, the Ascendant is \<open>ascmc[0]\<close>, the
  Midheaven \<open>ascmc[1]\<close>, the Descendant \<open>(ascmc[0] + 180.0) % 360.0\<close> and the IC
  \<open>(ascmc[1] + 180.0) % 360.0\<close>.
\<close>

theorem C4_angles:
  assumes "build_chart py prov payload = Inr r"
  shows "\<exists>cusps ascmc asc mc dc ic.
           houses_ex prov (res_julian_day r) (res_latitude r) (res_longitude r) ''P''
             = Inr (cusps, ascmc)
           \<and> map_of (res_placements r) ''Ascendant'' = Some asc
           \<and> map_of (res_placements r) ''Midheaven'' = Some mc
           \<and> map_of (res_placements r) ''Descendant'' = Some dc
           \<and> map_of (res_placements r) ''IC'' = Some ic
           \<and> longitude asc = Num (ascmc ! 0) \<and> longitude mc = Num (ascmc ! 1)
           \<and> longitude dc = Num (pymod (fadd (ascmc ! 0) (Fin 180)) 360)
           \<and> longitude ic = Num (pymod (fadd (ascmc ! 1) (Fin 180)) 360)"
proof -
  from result_angles [OF assms] obtain cusps ascmc where
    "houses_ex prov (res_julian_day r) (res_latitude r) (res_longitude r) ''P'' = Inr (cusps, ascmc)"
    "map_of (res_placements r) ''Ascendant'' = Some (angle_placement (ascmc ! 0))"
    "map_of (res_placements r) ''Midheaven'' = Some (angle_placement (ascmc ! 1))"
    "map_of (res_placements r) ''Descendant''
       = Some (angle_placement (pymod (fadd (ascmc ! 0) (Fin 180)) 360))"
    "map_of (res_placements r) ''IC''
       = Some (angle_placement (pymod (fadd (ascmc ! 1) (Fin 180)) 360))"
    by blast
  then show ?thesis
    by (simp add: angle_placement_def)
qed

theorem C4_angles_witness:
  "\<exists>r asc mc dc ic.
     build_chart test_runtime (stub_provider wrapped6)
       (test_payload (VStr ''2024-03-20T03:06:00Z'') (VInt 0) (VInt 0)) = Inr r
     \<and> map_of (res_placements r) ''Ascendant'' = Some asc \<and> longitude asc = Num (Fin 10)
     \<and> map_of (res_placements r) ''Midheaven'' = Some mc \<and> longitude mc = Num (Fin 280)
     \<and> map_of (res_placements r) ''Descendant'' = Some dc \<and> longitude dc = Num (Fin 190)
     \<and> map_of (res_placements r) ''IC'' = Some ic \<and> longitude ic = Num (Fin 100)"
proof -
  let ?P = "test_payload (VStr ''2024-03-20T03:06:00Z'') (VInt 0) (VInt 0)"
  let ?r = "projr (build_chart test_runtime (stub_provider wrapped6) ?P)"
  note chart = stub_build_chart [OF placement_wrapped6]
  have ok: "build_chart test_runtime (stub_provider wrapped6) ?P = Inr ?r"
    by (simp add: chart)
  from C4_angles [OF ok] obtain cusps ascmc asc mc dc ic where
    h: "houses_ex (stub_provider wrapped6) (res_julian_day ?r) (res_latitude ?r) (res_longitude ?r) ''P''
          = Inr (cusps, ascmc)" and
    m: "map_of (res_placements ?r) ''Ascendant'' = Some asc"
       "map_of (res_placements ?r) ''Midheaven'' = Some mc"
       "map_of (res_placements ?r) ''Descendant'' = Some dc"
       "map_of (res_placements ?r) ''IC'' = Some ic" and
    l: "longitude asc = Num (ascmc ! 0)" "longitude mc = Num (ascmc ! 1)"
       "longitude dc = Num (pymod (fadd (ascmc ! 0) (Fin 180)) 360)"
       "longitude ic = Num (pymod (fadd (ascmc ! 1) (Fin 180)) 360)"
    by blast
  from h have "ascmc = [Fin 10, Fin 280]"
    by (simp add: stub_provider_def)
  with l have "longitude asc = Num (Fin 10)" "longitude mc = Num (Fin 280)"
    "longitude dc = Num (Fin 190)" "longitude ic = Num (Fin 100)"
    by simp_all
  with ok m show ?thesis by blast
qed

text \<open>
  C5: when the lookup of one of the thirteen bodies fails, \<open>build_chart\<close> returns no result;
  and when the lookups of the bodies before it in the list succeed with well-shaped answers,
  it raises a \<open>RuntimeError\<close> whose message names that body and carries the provider's
  message.
\<close>

theorem C5_body_failure:
  assumes "parse_datetime py (dict_get payload ''datetime_utc'' (VStr '''')) = Inr dt"
    and "latitude_ok py (dict_get payload ''latitude'' VNone)"
    and "longitude_ok py (dict_get payload ''longitude'' VNone)"
    and "julday prov (year dt) (month dt) (day dt) (fractional_hour dt) = Inr jd"
    and "b \<in> set bodies" and "calc_ut prov jd b = Inl e"
  shows "(\<forall>r. build_chart py prov payload \<noteq> Inr r)
       \<and> (list_all (\<lambda>b'. case calc_ut prov jd b' of Inl e' \<Rightarrow> False | Inr res \<Rightarrow> well_shaped res)
             (takeWhile (\<lambda>x. x \<noteq> b) bodies) \<longrightarrow>
           build_chart py prov payload
             = Inl (RuntimeError (''Failed to calculate '' @ get_planet_name prov b @ '': '' @ e)))"
proof (intro conjI allI impI)
  fix r
  show "build_chart py prov payload \<noteq> Inr r"
  proof
    assume "build_chart py prov payload = Inr r"
    then obtain pl where "calc_bodies prov jd bodies [] = Inr pl"
      unfolding build_chart_Inr using assms(1,4) by (auto simp: compute_jd_Inr)
    with calc_bodies_fails [OF assms(5,6)] show False by blast
  qed
next
  assume "list_all (\<lambda>b'. case calc_ut prov jd b' of Inl e' \<Rightarrow> False | Inr res \<Rightarrow> well_shaped res)
            (takeWhile (\<lambda>x. x \<noteq> b) bodies)"
  then have "calc_bodies prov jd bodies []
             = Inl (RuntimeError (calc_failed_msg (get_planet_name prov b) e))"
    using assms(5,6) well_shaped_placement by (intro calc_bodies_first_failure) auto
  moreover have "compute_jd prov dt = Inr jd"
    using assms(4) by (simp add: compute_jd_Inr)
  ultimately show "build_chart py prov payload
             = Inl (RuntimeError (''Failed to calculate '' @ get_planet_name prov b @ '': '' @ e))"
    using assms(1,2,3)
    by (simp add: build_chart_def then_do_Inr then_do_Inl check_latitude_cases
        check_longitude_cases calc_failed_msg_def)
qed

theorem C5_body_failure_witness:
  "build_chart test_runtime (failing_provider MARS)
     (test_payload (VStr ''2024-03-20T03:06:00Z'') (VInt 0) (VInt 0))
   = Inl (RuntimeError ''Failed to calculate Mars: ephemeris file not found'')"
proof -
  let ?P = "test_payload (VStr ''2024-03-20T03:06:00Z'') (VInt 0) (VInt 0)"
  have jd: "julday (failing_provider MARS) (year date_20240320) (month date_20240320)
              (day date_20240320) (fractional_hour date_20240320) = Inr (Fin 2460389)"
    by (simp add: failing_provider_def stub_provider_def)
  have b: "MARS \<in> set bodies"
    by (simp add: bodies_def)
  have e: "calc_ut (failing_provider MARS) (Fin 2460389) MARS = Inl ''ephemeris file not found''"
    by (simp add: failing_provider_def)
  have before: "list_all (\<lambda>b'. case calc_ut (failing_provider MARS) (Fin 2460389) b' of
                        Inl e' \<Rightarrow> False | Inr res \<Rightarrow> well_shaped res)
                  (takeWhile (\<lambda>x. x \<noteq> MARS) bodies)"
    by (simp add: bodies_def failing_provider_def well_shaped_def)
  have lat: "latitude_ok test_runtime (dict_get ?P ''latitude'' VNone)"
    and lon: "longitude_ok test_runtime (dict_get ?P ''longitude'' VNone)"
    by (simp_all add: test_payload_get zero_ok)
  from C5_body_failure [OF test_parse_Z lat lon jd b e] before
  have "build_chart test_runtime (failing_provider MARS) ?P
        = Inl (RuntimeError (''Failed to calculate '' @ get_planet_name (failing_provider MARS) MARS
                 @ '': '' @ ''ephemeris file not found''))"
    by blast
  then show ?thesis
    by (simp add: failing_provider_def stub_provider_def)
qed

text \<open>
  C6: a latitude or longitude that does not convert to a float, or whose float is not
  within the bounds (as is every infinity and NaN), makes \<open>build_chart\<close> raise a
  \<open>ValueError\<close>; once \<open>datetime_utc\<close> has parsed, the message is that of the first
  offending coordinate, which names it and ends with the rejected raw value.
\<close>

theorem C6_coordinates:
  "(\<not> latitude_ok py (dict_get payload ''latitude'' VNone)
      \<or> \<not> longitude_ok py (dict_get payload ''longitude'' VNone)
    \<longrightarrow> is_ValueError (build_chart py prov payload))
   \<and> (parse_datetime py (dict_get payload ''datetime_utc'' (VStr '''')) = Inr dt
        \<and> \<not> latitude_ok py (dict_get payload ''latitude'' VNone)
      \<longrightarrow> build_chart py prov payload
            = Inl (ValueError (''Latitude must be between -90 and 90. Got: ''
                     @ py_str py (dict_get payload ''latitude'' VNone) @ ''.'')))
   \<and> (parse_datetime py (dict_get payload ''datetime_utc'' (VStr '''')) = Inr dt
        \<and> latitude_ok py (dict_get payload ''latitude'' VNone)
        \<and> \<not> longitude_ok py (dict_get payload ''longitude'' VNone)
      \<longrightarrow> build_chart py prov payload
            = Inl (ValueError (''Longitude must be between -180 and 180. Got: ''
                     @ py_str py (dict_get payload ''longitude'' VNone) @ ''.'')))
   \<and> (latitude_ok py v \<longleftrightarrow> (\<exists>x. py_float py v = Some (Fin x) \<and> - 90 \<le> x \<and> x \<le> 90))
   \<and> (longitude_ok py v \<longleftrightarrow> (\<exists>x. py_float py v = Some (Fin x) \<and> - 180 \<le> x \<and> x \<le> 180))"
proof (intro conjI impI)
  assume bad: "\<not> latitude_ok py (dict_get payload ''latitude'' VNone)
      \<or> \<not> longitude_ok py (dict_get payload ''longitude'' VNone)"
  show "is_ValueError (build_chart py prov payload)"
  proof (cases "parse_datetime py (dict_get payload ''datetime_utc'' (VStr ''''))")
    case (Inl ex)
    then obtain m where "ex = ValueError m"
      by (cases "dict_get payload ''datetime_utc'' (VStr '''')")
        (auto simp: Let_def split: option.splits)
    with Inl show ?thesis
      by (simp add: build_chart_def then_do_Inl)
  next
    case (Inr d)
    with bad show ?thesis
      by (auto simp: build_chart_def then_do_Inr then_do_Inl check_latitude_cases
          check_longitude_cases)
  qed
next
  assume "parse_datetime py (dict_get payload ''datetime_utc'' (VStr '''')) = Inr dt
        \<and> \<not> latitude_ok py (dict_get payload ''latitude'' VNone)"
  then show "build_chart py prov payload
            = Inl (ValueError (''Latitude must be between -90 and 90. Got: ''
                     @ py_str py (dict_get payload ''latitude'' VNone) @ ''.''))"
    by (simp add: build_chart_def then_do_Inr then_do_Inl check_latitude_cases latitude_msg_def)
next
  assume "parse_datetime py (dict_get payload ''datetime_utc'' (VStr '''')) = Inr dt
        \<and> latitude_ok py (dict_get payload ''latitude'' VNone)
        \<and> \<not> longitude_ok py (dict_get payload ''longitude'' VNone)"
  then show "build_chart py prov payload
            = Inl (ValueError (''Longitude must be between -180 and 180. Got: ''
                     @ py_str py (dict_get payload ''longitude'' VNone) @ ''.''))"
    by (simp add: build_chart_def then_do_Inr then_do_Inl check_latitude_cases
        check_longitude_cases longitude_msg_def)
next
  show "latitude_ok py v \<longleftrightarrow> (\<exists>x. py_float py v = Some (Fin x) \<and> - 90 \<le> x \<and> x \<le> 90)"
  proof (cases "py_float py v")
    case None
    then show ?thesis by (simp add: latitude_ok_def)
  next
    case (Some f)
    then show ?thesis by (cases f) (simp_all add: latitude_ok_def)
  qed
next
  show "longitude_ok py v \<longleftrightarrow> (\<exists>x. py_float py v = Some (Fin x) \<and> - 180 \<le> x \<and> x \<le> 180)"
  proof (cases "py_float py v")
    case None
    then show ?thesis by (simp add: longitude_ok_def)
  next
    case (Some f)
    then show ?thesis by (cases f) (simp_all add: longitude_ok_def)
  qed
qed

theorem C6_coordinates_witness:
  "build_chart test_runtime (stub_provider wrapped6)
     (test_payload (VStr ''2024-03-20T03:06:00Z'') (VInt 91) (VInt 0))
   = Inl (ValueError ''Latitude must be between -90 and 90. Got: 91.'')
   \<and> build_chart test_runtime (stub_provider wrapped6)
       (test_payload (VStr ''2024-03-20T03:06:00Z'') (VInt 0) (VInt (- 181)))
   = Inl (ValueError ''Longitude must be between -180 and 180. Got: -181.'')
   \<and> is_ValueError (build_chart test_runtime (stub_provider wrapped6)
       (test_payload (VStr ''not-a-date'') (VFloat NaN) (VInt 0)))"
proof -
  let ?A = "test_payload (VStr ''2024-03-20T03:06:00Z'') (VInt 91) (VInt 0)"
  let ?B = "test_payload (VStr ''2024-03-20T03:06:00Z'') (VInt 0) (VInt (- 181))"
  let ?C = "test_payload (VStr ''not-a-date'') (VFloat NaN) (VInt 0)"
  have s91: "str_int 91 = ''91''" and s181: "str_int (- 181) = ''-181''"
    by (simp_all add: str_int_def str_nat.simps digit_char_def)
  have "build_chart test_runtime (stub_provider wrapped6) ?A
        = Inl (ValueError ''Latitude must be between -90 and 90. Got: 91.'')"
    using C6_coordinates [of test_runtime ?A "stub_provider wrapped6" date_20240320 VNone]
      test_parse_Z [of "VInt 91" "VInt 0"]
    by (simp add: test_payload_get latitude_ok_def s91)
  moreover have "build_chart test_runtime (stub_provider wrapped6) ?B
        = Inl (ValueError ''Longitude must be between -180 and 180. Got: -181.'')"
    using C6_coordinates [of test_runtime ?B "stub_provider wrapped6" date_20240320 VNone]
      test_parse_Z [of "VInt 0" "VInt (- 181)"]
    by (simp add: test_payload_get latitude_ok_def longitude_ok_def s181)
  moreover have "is_ValueError (build_chart test_runtime (stub_provider wrapped6) ?C)"
    using C6_coordinates [of test_runtime ?C "stub_provider wrapped6" date_20240320 VNone]
    by (simp add: test_payload_get latitude_ok_def)
  ultimately show ?thesis by blast
qed

text \<open>
  C7: a string carrying the offset \<open>+05:00\<close> must be rejected (the docstring of
  \<open>_parse_datetime\<close>: a string ending in \<open>Z\<close>, giving a naive UTC datetime).  The code does
  not reject it: \<open>_parse_datetime\<close> makes no check of its own and hands the string to
  \<open>datetime.fromisoformat\<close>, which reads the offset and returns an aware datetime;
  \<open>build_chart\<close> then ignores the offset and returns the chart of the wall-clock time
  03:06 taken as UTC, labelled \<open>2024-03-20T03:06:00Z\<close>, the same result as for the string
  \<open>2024-03-20T03:06:00Z\<close>, although the instant named is 22:06 UTC of the day before.
  The Julian Day of the stub is the date as a number plus the hour.
\<close>

theorem C7_offset_accepted:
  "parse_datetime test_runtime (VStr ''2024-03-20T03:06:00+05:00'')
     = Inr (date_20240320\<lparr>tzinfo := Some 18000000000\<rparr>)
   \<and> build_chart test_runtime clock_provider
         (test_payload (VStr ''2024-03-20T03:06:00+05:00'') (VInt 0) (VInt 0))
       = build_chart test_runtime clock_provider
           (test_payload (VStr ''2024-03-20T03:06:00Z'') (VInt 0) (VInt 0))
   \<and> map_sum id res_datetime_utc
         (build_chart test_runtime clock_provider
            (test_payload (VStr ''2024-03-20T03:06:00+05:00'') (VInt 0) (VInt 0)))
       = Inr ''2024-03-20T03:06:00Z''
   \<and> map_sum id res_julian_day
         (build_chart test_runtime clock_provider
            (test_payload (VStr ''2024-03-20T03:06:00+05:00'') (VInt 0) (VInt 0)))
       = Inr (Fin (20240320 + 31 / 10))"
proof -
  let ?d = "date_20240320\<lparr>tzinfo := Some 18000000000\<rparr>"
  have jd: "fadd (Fin (real (year ?d * 10000 + month ?d * 100 + day ?d))) (fractional_hour ?d)
            = Fin (20240320 + 31 / 10)"
    using clock_jd_20240320 by (simp add: fractional_hour_def)
  have off: "build_chart test_runtime clock_provider
               (test_payload (VStr ''2024-03-20T03:06:00+05:00'') (VInt 0) (VInt 0))
             = Inr \<lparr>res_name = VNone, res_datetime_utc = ''2024-03-20T03:06:00Z'',
                    res_latitude = Fin 0, res_longitude = Fin 0,
                    res_julian_day = Fin (20240320 + 31 / 10),
                    res_placements =
                      set_angles [(''Ascendant'', Fin 10), (''Midheaven'', Fin 280),
                          (''Descendant'', Fin 190), (''IC'', Fin 100)]
                        (map (\<lambda>n. (n, \<lparr>longitude = Num (Fin 1), latitude = Num (Fin 2),
                                        distance_au = Num (Fin 3), speed = Num (Fin 4),
                                        retrograde = False\<rparr>)) body_names)\<rparr>"
    by (simp only: clock_build_chart [OF test_parse_offset] strftime_offset jd)
  have utc: "build_chart test_runtime clock_provider
               (test_payload (VStr ''2024-03-20T03:06:00Z'') (VInt 0) (VInt 0))
             = Inr \<lparr>res_name = VNone, res_datetime_utc = ''2024-03-20T03:06:00Z'',
                    res_latitude = Fin 0, res_longitude = Fin 0,
                    res_julian_day = Fin (20240320 + 31 / 10),
                    res_placements =
                      set_angles [(''Ascendant'', Fin 10), (''Midheaven'', Fin 280),
                          (''Descendant'', Fin 190), (''IC'', Fin 100)]
                        (map (\<lambda>n. (n, \<lparr>longitude = Num (Fin 1), latitude = Num (Fin 2),
                                        distance_au = Num (Fin 3), speed = Num (Fin 4),
                                        retrograde = False\<rparr>)) body_names)\<rparr>"
    by (simp only: clock_build_chart [OF test_parse_direct] strftime_20240320
        clock_jd_20240320)
  show ?thesis
    by (simp only: test_parse_offset off utc) simp
qed

text \<open>
  C8: in every result, each of the four angle placements has latitude 0.0, distance 0.0,
  speed 0.0 and is not retrograde.
\<close>

theorem C8_angle_fields:
  assumes "build_chart py prov payload = Inr r" and "k \<in> set angle_names"
  shows "\<exists>p. map_of (res_placements r) k = Some p
           \<and> latitude p = Num (Fin 0) \<and> distance_au p = Num (Fin 0)
           \<and> speed p = Num (Fin 0) \<and> retrograde p = False"
proof -
  from result_angles [OF assms(1)] assms(2)
  obtain a where "map_of (res_placements r) k = Some (angle_placement a)"
    by (auto simp: angle_names_def)
  then show ?thesis
    by (simp add: angle_placement_def)
qed

theorem C8_angle_fields_witness:
  "\<exists>r p. build_chart test_runtime (stub_provider wrapped6)
            (test_payload (VStr ''2024-03-20T03:06:00Z'') (VInt 0) (VInt 0)) = Inr r
         \<and> map_of (res_placements r) ''Descendant'' = Some p
         \<and> latitude p = Num (Fin 0) \<and> distance_au p = Num (Fin 0)
         \<and> speed p = Num (Fin 0) \<and> retrograde p = False"
proof -
  let ?P = "test_payload (VStr ''2024-03-20T03:06:00Z'') (VInt 0) (VInt 0)"
  let ?r = "projr (build_chart test_runtime (stub_provider wrapped6) ?P)"
  have ok: "build_chart test_runtime (stub_provider wrapped6) ?P = Inr ?r"
    by (simp add: stub_build_chart [OF placement_wrapped6])
  have "''Descendant'' \<in> set angle_names"
    by (simp add: angle_names_def)
  from C8_angle_fields [OF ok this] ok show ?thesis by blast
qed

text \<open>
  C9, where the code leaves the format: for the year 999 the C library prints the year as
  \<open>999\<close>, so the \<open>datetime_utc\<close> of the result has nineteen characters,
  \<open>999-01-02T03:04:05Z\<close>, and \<open>_parse_datetime\<close> rejects that string when it is given
  back; and for a string with the offset \<open>+05:00\<close> the result carries the wall-clock time
  with a \<open>Z\<close>, which is another instant than the one parsed.
\<close>

theorem C9_counterexample:
  "map_sum id res_datetime_utc
     (build_chart test_runtime clock_provider
        (test_payload (VStr ''0999-01-02T03:04:05Z'') (VInt 0) (VInt 0)))
     = Inr ''999-01-02T03:04:05Z''
   \<and> parse_datetime test_runtime (VStr ''999-01-02T03:04:05Z'')
       = Inl (ValueError (invalid_datetime_msg ''999-01-02T03:04:05Z''))
   \<and> map_sum id res_datetime_utc
       (build_chart test_runtime clock_provider
          (test_payload (VStr ''2024-03-20T03:06:00+05:00'') (VInt 0) (VInt 0)))
     = Inr ''2024-03-20T03:06:00Z''"
proof -
  have "parse_datetime test_runtime (VStr ''999-01-02T03:04:05Z'')
        = Inl (ValueError (invalid_datetime_msg ''999-01-02T03:04:05Z''))"
    by (simp add: endswith_Z_def test_runtime_iso iso_three_digit_year)
  then show ?thesis
    by (simp add: clock_build_chart [OF test_parse_0999] clock_build_chart [OF test_parse_offset]
        strftime_09990102 strftime_offset)
qed

text \<open>
  C9, what the code does: in every result of \<open>build_chart\<close> the \<open>datetime_utc\<close> field is
  \<open>strftime('%Y-%m-%dT%H:%M:%SZ')\<close> of the parsed datetime, which does not depend on its
  microsecond (the fraction is cut off, not rounded), and the Julian Day is the provider's
  \<open>julday\<close> of its year, month, day and hour + minute/60 + second/3600.  When the parsed
  datetime is valid, naive and of a year from 1000 on, the field has the twenty characters
  of \<open>YYYY-MM-DDTHH:MM:SSZ\<close> and, without its \<open>Z\<close>, reads back as the parsed datetime with
  the microsecond set to zero.
\<close>

theorem C9_datetime_and_julian_day:
  assumes "build_chart py prov payload = Inr r"
  shows "\<exists>dt. parse_datetime py (dict_get payload ''datetime_utc'' (VStr '''')) = Inr dt
           \<and> res_datetime_utc r = strftime dt
           \<and> julday prov (year dt) (month dt) (day dt)
                 (Fin (real (hour dt) + real (minute dt) / 60 + real (second dt) / 3600))
               = Inr (res_julian_day r)
           \<and> (\<forall>us. strftime (dt\<lparr>microsecond := us\<rparr>) = strftime dt)
           \<and> (valid_datetime dt \<and> 1000 \<le> year dt \<and> tzinfo dt = None \<longrightarrow>
                 length (res_datetime_utc r) = 20 \<and> endswith_Z (res_datetime_utc r)
                 \<and> iso_fromisoformat (butlast (res_datetime_utc r))
                     = Some (dt\<lparr>microsecond := 0\<rparr>))"
proof -
  from assms obtain dt jd where
    dt: "parse_datetime py (dict_get payload ''datetime_utc'' (VStr '''')) = Inr dt" and
    jd: "compute_jd prov dt = Inr jd" and
    r: "res_datetime_utc r = strftime dt" "res_julian_day r = jd"
    unfolding build_chart_Inr by auto
  have j: "julday prov (year dt) (month dt) (day dt)
          (Fin (real (hour dt) + real (minute dt) / 60 + real (second dt) / 3600)) = Inr jd"
    using jd by (simp add: compute_jd_Inr fractional_hour_def)
  have us: "\<forall>us. strftime (dt\<lparr>microsecond := us\<rparr>) = strftime dt"
    by (simp add: strftime_def)
  have rb: "length (strftime dt) = 20 \<and> endswith_Z (strftime dt)
      \<and> iso_fromisoformat (butlast (strftime dt)) = Some (dt\<lparr>microsecond := 0\<rparr>)"
    if v: "valid_datetime dt" and y: "1000 \<le> year dt" and n: "tzinfo dt = None"
  proof -
    have "dt\<lparr>microsecond := 0, tzinfo := None\<rparr> = dt\<lparr>microsecond := 0\<rparr>"
      using n by simp
    then have "iso_fromisoformat (isoformat_seconds dt) = Some (dt\<lparr>microsecond := 0\<rparr>)"
      using iso_roundtrip [OF v] by simp
    then have "iso_fromisoformat (butlast (strftime dt)) = Some (dt\<lparr>microsecond := 0\<rparr>)"
      by (simp only: strftime_ends(2) [OF v y])
    with strftime_ends(3) [OF v y] strftime_ends(1) [OF v y] show ?thesis
      by (intro conjI)
  qed
  show ?thesis
  proof (intro exI conjI)
    show "parse_datetime py (dict_get payload ''datetime_utc'' (VStr '''')) = Inr dt"
      by (rule dt)
    show "res_datetime_utc r = strftime dt"
      by (rule r(1))
    show "julday prov (year dt) (month dt) (day dt)
            (Fin (real (hour dt) + real (minute dt) / 60 + real (second dt) / 3600))
          = Inr (res_julian_day r)"
      by (simp only: j r(2))
    show "\<forall>us. strftime (dt\<lparr>microsecond := us\<rparr>) = strftime dt"
      by (rule us)
    show "valid_datetime dt \<and> 1000 \<le> year dt \<and> tzinfo dt = None \<longrightarrow>
            length (res_datetime_utc r) = 20 \<and> endswith_Z (res_datetime_utc r)
            \<and> iso_fromisoformat (butlast (res_datetime_utc r)) = Some (dt\<lparr>microsecond := 0\<rparr>)"
      using rb by (simp only: r(1)) blast
  qed
qed

theorem C9_datetime_and_julian_day_witness:
  "map_sum id res_datetime_utc
     (build_chart test_runtime clock_provider
        (test_payload (VStr ''2024-03-20T03:06:59.999Z'') (VInt 0) (VInt 0)))
     = Inr ''2024-03-20T03:06:59Z''
   \<and> map_sum id res_julian_day
       (build_chart test_runtime clock_provider
          (test_payload (VStr ''2024-03-20T03:06:59.999Z'') (VInt 0) (VInt 0)))
     = Inr (Fin (20240320 + (3 + 6 / 60 + 59 / 3600)))
   \<and> iso_fromisoformat ''2024-03-20T03:06:59'' = Some (date_20240320\<lparr>second := 59\<rparr>)"
proof -
  let ?P = "test_payload (VStr ''2024-03-20T03:06:59.999Z'') (VInt 0) (VInt 0)"
  let ?r = "projr (build_chart test_runtime clock_provider ?P)"
  let ?d = "date_20240320\<lparr>second := 59, microsecond := 999000\<rparr>"
  have ok: "build_chart test_runtime clock_provider ?P = Inr ?r"
    by (simp only: clock_build_chart [OF test_parse_fraction] sum.sel)
  from C9_datetime_and_julian_day [OF ok] obtain dt where
    dt: "parse_datetime test_runtime (dict_get ?P ''datetime_utc'' (VStr '''')) = Inr dt" and
    s: "res_datetime_utc ?r = strftime dt" and
    j: "julday clock_provider (year dt) (month dt) (day dt)
          (Fin (real (hour dt) + real (minute dt) / 60 + real (second dt) / 3600))
        = Inr (res_julian_day ?r)" and
    b: "valid_datetime dt \<and> 1000 \<le> year dt \<and> tzinfo dt = None \<longrightarrow>
          length (res_datetime_utc ?r) = 20 \<and> endswith_Z (res_datetime_utc ?r)
          \<and> iso_fromisoformat (butlast (res_datetime_utc ?r)) = Some (dt\<lparr>microsecond := 0\<rparr>)"
    by blast
  from dt test_parse_fraction have d: "dt = ?d"
    by (simp add: test_payload_get)
  have str: "res_datetime_utc ?r = ''2024-03-20T03:06:59Z''"
    using s by (simp add: d strftime_fraction)
  have jd: "res_julian_day ?r = Fin (20240320 + (3 + 6 / 60 + 59 / 3600))"
    using j by (simp add: d date_20240320_def clock_provider_def)
  have "valid_datetime ?d \<and> 1000 \<le> year ?d \<and> tzinfo ?d = None"
    by (simp add: valid_datetime_def date_20240320_def days_in_month_def)
  with b have "iso_fromisoformat (butlast (res_datetime_utc ?r)) = Some (?d\<lparr>microsecond := 0\<rparr>)"
    by (simp only: d)
  then have rb: "iso_fromisoformat ''2024-03-20T03:06:59'' = Some (date_20240320\<lparr>second := 59\<rparr>)"
    by (simp add: str date_20240320_def)
  show ?thesis
    by (subst (1 2) ok) (simp add: str jd rb)
qed

text \<open>
  C10: a string with no trailing \<open>Z\<close> goes to the ISO parser as it is, so a string the
  parser reads is accepted with or without a \<open>Z\<close> after it; a datetime object is returned
  as it is; in both cases, with coordinates in range, \<open>build_chart\<close> raises no
  \<open>ValueError\<close>.  With the reference parser, the ISO date and time of every valid datetime
  is such a string.
\<close>

theorem C10_no_trailing_Z:
  "(\<not> endswith_Z s \<and> fromisoformat py s = Some d \<longrightarrow>
      parse_datetime py (VStr s) = Inr d \<and> parse_datetime py (VStr (s @ ''Z'')) = Inr d)
   \<and> parse_datetime py (VDatetime d') = Inr d'
   \<and> ((dict_get payload ''datetime_utc'' (VStr '''') = VDatetime d
         \<or> dict_get payload ''datetime_utc'' (VStr '''') = VStr s \<and> \<not> endswith_Z s
             \<and> fromisoformat py s = Some d)
        \<and> latitude_ok py (dict_get payload ''latitude'' VNone)
        \<and> longitude_ok py (dict_get payload ''longitude'' VNone)
      \<longrightarrow> \<not> is_ValueError (build_chart py prov payload))
   \<and> (valid_datetime dt \<longrightarrow>
        \<not> endswith_Z (isoformat dt)
        \<and> fromisoformat test_runtime (isoformat dt) = Some (dt\<lparr>tzinfo := None\<rparr>))"
proof (intro conjI impI)
  assume a: "\<not> endswith_Z s \<and> fromisoformat py s = Some d"
  then show "parse_datetime py (VStr s) = Inr d"
    by (simp add: parse_datetime_VStr)
  from a show "parse_datetime py (VStr (s @ ''Z'')) = Inr d"
    by (simp add: parse_datetime_VStr endswith_Z_append)
next
  show "parse_datetime py (VDatetime d') = Inr d'"
    by simp
next
  assume a: "(dict_get payload ''datetime_utc'' (VStr '''') = VDatetime d
         \<or> dict_get payload ''datetime_utc'' (VStr '''') = VStr s \<and> \<not> endswith_Z s
             \<and> fromisoformat py s = Some d)
        \<and> latitude_ok py (dict_get payload ''latitude'' VNone)
        \<and> longitude_ok py (dict_get payload ''longitude'' VNone)"
  then have "parse_datetime py (dict_get payload ''datetime_utc'' (VStr '''')) = Inr d"
    by (auto simp: parse_datetime_VStr)
  moreover from a have "latitude_ok py (dict_get payload ''latitude'' VNone)"
    and "longitude_ok py (dict_get payload ''longitude'' VNone)"
    by simp_all
  ultimately show "\<not> is_ValueError (build_chart py prov payload)"
    by (rule build_chart_not_ValueError)
next
  assume v: "valid_datetime dt"
  show "\<not> endswith_Z (isoformat dt)"
    by (rule isoformat_no_Z [OF v])
  show "fromisoformat test_runtime (isoformat dt) = Some (dt\<lparr>tzinfo := None\<rparr>)"
    by (simp add: test_runtime_iso iso_isoformat [OF v])
qed

theorem C10_no_trailing_Z_witness:
  "parse_datetime test_runtime (VStr ''2024-03-20T03:06:00'') = Inr date_20240320
   \<and> \<not> is_ValueError (build_chart test_runtime (stub_provider wrapped6)
         (test_payload (VStr ''2024-03-20T03:06:00'') (VInt 0) (VInt 0)))
   \<and> \<not> is_ValueError (build_chart test_runtime (stub_provider wrapped6)
         (test_payload (VDatetime date_20240320) (VInt 0) (VInt 0)))"
proof -
  let ?s = "''2024-03-20T03:06:00''"
  let ?A = "test_payload (VStr ?s) (VInt 0) (VInt 0)"
  let ?B = "test_payload (VDatetime date_20240320) (VInt 0) (VInt 0)"
  have nz: "\<not> endswith_Z ?s"
    using C10_no_trailing_Z [of ?s test_runtime date_20240320 date_20240320 ?A
        "stub_provider wrapped6" date_20240320] valid_20240320
    by (simp add: isoformat_20240320)
  have "date_20240320\<lparr>tzinfo := None\<rparr> = date_20240320"
    by (simp add: date_20240320_def)
  then have iso: "fromisoformat test_runtime ?s = Some date_20240320"
    using C10_no_trailing_Z [of ?s test_runtime date_20240320 date_20240320 ?A
        "stub_provider wrapped6" date_20240320] valid_20240320
    by (simp add: isoformat_20240320)
  have "parse_datetime test_runtime (VStr ?s) = Inr date_20240320"
    using C10_no_trailing_Z [of ?s test_runtime date_20240320 date_20240320 ?A
        "stub_provider wrapped6" date_20240320] nz iso
    by blast
  moreover have "\<not> is_ValueError (build_chart test_runtime (stub_provider wrapped6) ?A)"
    using C10_no_trailing_Z [of ?s test_runtime date_20240320 date_20240320 ?A
        "stub_provider wrapped6" date_20240320] nz iso zero_ok
    by (simp add: test_payload_get)
  moreover have "\<not> is_ValueError (build_chart test_runtime (stub_provider wrapped6) ?B)"
    using C10_no_trailing_Z [of ?s test_runtime date_20240320 date_20240320 ?B
        "stub_provider wrapped6" date_20240320] zero_ok
    by (simp add: test_payload_get)
  ultimately show ?thesis by blast
qed

end
